theory Spec2Isabelle
  imports Complex_Main
begin

section \<open>LaunchSim backend: a model of \<^verbatim>\<open>launchsim/backend/server.py\<close>\<close>

text \<open>
  The server is Python. Its \<^verbatim>\<open>float\<close> values are modelled as mathematical reals
  (decimal literals are exact rationals), its \<^verbatim>\<open>int\<close> values as \<^typ>\<open>int\<close>.
  Rounding, the silent overflow of \<^verbatim>\<open>+\<close>, \<^verbatim>\<open>*\<close> and \<^verbatim>\<open>/\<close> to infinity, and NaN
  are therefore outside this model; what the model keeps is every branch, every loop and
  every place where the Python raises: a division by zero, an index out of range, and
  the \<^verbatim>\<open>OverflowError\<close> of \<^verbatim>\<open>x ** 2\<close> on a float, taken at the exact square.

  Record fields carry a prefix naming their class (\<open>motor_\<close>, \<open>rocket_\<close>, \<open>res_\<close>, ...),
  because several classes of the source share field names (\<open>mass\<close>, \<open>length\<close>,
  \<open>success\<close>, \<open>apogee\<close>); functions keep the names of the source.
\<close>

subsection \<open>Exceptions\<close>

text \<open>
  The exception classes the code can meet. All are subclasses of Python's
  \<^verbatim>\<open>Exception\<close>; the code never tells them apart, it only reads \<^verbatim>\<open>str(e)\<close>.
  \<open>EngineError\<close> stands for whatever the RocketPy library raises, carrying its text.
\<close>

datatype exn =
  ZeroDivisionError
  | ValueError string
  | IndexError
  | AttributeError string
  | OverflowError
  | EngineError string

fun str_exn :: "exn \<Rightarrow> string" where
  "str_exn ZeroDivisionError = ''float division by zero''"
| "str_exn (ValueError s) = s"
| "str_exn IndexError = ''list index out of range''"
| "str_exn (AttributeError s) = s"
| "str_exn OverflowError =
    ''(34, '' @ [CHR 0x27] @ ''Numerical result out of range'' @ [CHR 0x27] @ '')''"
| "str_exn (EngineError s) = s"

text \<open>Python's \<^verbatim>\<open>a / b\<close> on floats raises on a zero divisor.\<close>

definition py_div :: "real \<Rightarrow> real \<Rightarrow> exn + real" where
  "py_div a b = (if b = 0 then Inl ZeroDivisionError else Inr (a / b))"

text \<open>
  Python's \<^verbatim>\<open>x ** 2\<close> on a float raises \<^verbatim>\<open>OverflowError\<close> when the result is beyond
  the largest double, \<open>max_float\<close>, which is (2 ^ 53 - 1) * 2 ^ 971. The model compares
  the exact square with that bound.
\<close>

definition max_float :: real where
  "max_float = (2 ^ 53 - 1) * 2 ^ 971"

definition py_square :: "real \<Rightarrow> exn + real" where
  "py_square x = (if max_float < x\<^sup>2 then Inl OverflowError else Inr (x\<^sup>2))"

text \<open>Sequencing of computations that may raise: the first exception wins.\<close>

definition bind_exn :: "exn + 'a \<Rightarrow> ('a \<Rightarrow> exn + 'b) \<Rightarrow> exn + 'b" where
  "bind_exn m f = (case m of Inl e \<Rightarrow> Inl e | Inr v \<Rightarrow> f v)"

subsection \<open>Request models\<close>

datatype NoseShape = CONICAL | OGIVE | PARABOLIC | ELLIPTICAL | VON_KARMAN | LVHAACK | POWER_SERIES

fun NoseShape_value :: "NoseShape \<Rightarrow> string" where
  "NoseShape_value CONICAL = ''conical''"
| "NoseShape_value OGIVE = ''ogive''"
| "NoseShape_value PARABOLIC = ''parabolic''"
| "NoseShape_value ELLIPTICAL = ''elliptical''"
| "NoseShape_value VON_KARMAN = ''vonKarman''"
| "NoseShape_value LVHAACK = ''lvHaack''"
| "NoseShape_value POWER_SERIES = ''powerSeries''"

datatype MotorType = SOLID | HYBRID | LIQUID

datatype AtmosphereType = STANDARD | CUSTOM | FORECAST | REANALYSIS | WINDY

record EnvironmentConfig =
  env_latitude :: real
  env_longitude :: real
  env_elevation :: real
  env_date :: "string option"
  env_atmosphere_type :: AtmosphereType
  env_wind_speed :: real
  env_wind_direction :: real

record MotorConfig =
  motor_type :: MotorType
  motor_thrust_source :: "string option"
  motor_burn_time :: real
  motor_total_impulse :: real
  motor_avg_thrust :: real
  motor_propellant_mass :: real
  motor_dry_mass :: real
  motor_nozzle_radius :: real
  motor_throat_radius :: real
  motor_grain_outer_radius :: real
  motor_grain_initial_inner_radius :: real
  motor_grain_initial_height :: real
  motor_grain_number :: int
  motor_grain_separation :: real
  motor_grain_density :: real
  motor_thrust_curve :: "real list list option"

record NoseConfig =
  nose_length :: real
  nose_kind :: NoseShape
  nose_base_radius :: "real option"
  nose_rocket_radius :: "real option"

record FinConfig =
  fin_n :: int
  fin_root_chord :: real
  fin_tip_chord :: real
  fin_span :: real
  fin_sweep_length :: "real option"
  fin_sweep_angle :: "real option"
  fin_cant_angle :: real
  fin_position :: real

record ParachuteConfig =
  chute_name :: string
  chute_cd_s :: real
  chute_trigger :: string
  chute_sampling_rate :: real
  chute_lag :: real
  chute_noise :: "real list"

record RocketConfig =
  rocket_mass :: real
  rocket_radius :: real
  rocket_inertia_i :: real
  rocket_inertia_z :: real
  rocket_center_of_mass :: real
  rocket_power_off_drag :: "real list list option"
  rocket_power_on_drag :: "real list list option"
  rocket_nose :: "NoseConfig option"
  rocket_fins :: "FinConfig option"
  rocket_motor :: MotorConfig
  rocket_parachutes :: "ParachuteConfig list option"

record FlightConfig =
  flight_rail_length :: real
  flight_inclination :: real
  flight_heading :: real
  flight_max_time :: real
  flight_max_time_step :: real
  flight_terminate_on_apogee :: bool

record SimulationRequest =
  req_environment :: EnvironmentConfig
  req_rocket :: RocketConfig
  req_flight :: FlightConfig
  req_output_sampling_rate :: real

record MonteCarloRequest =
  mcreq_base_simulation :: SimulationRequest
  mcreq_num_simulations :: int
  mcreq_wind_speed_std :: real
  mcreq_wind_direction_std :: real
  mcreq_mass_std :: real
  mcreq_thrust_std :: real

text \<open>
  The models declare no validators: every value of the field's type is accepted.
  The defaults of the \<^verbatim>\<open>Field(...)\<close> declarations, used for concrete requests below.
\<close>

definition default_EnvironmentConfig :: EnvironmentConfig where
  "default_EnvironmentConfig =
    \<lparr>env_latitude = 32.990254, env_longitude = -106.974998, env_elevation = 1400,
     env_date = None, env_atmosphere_type = STANDARD, env_wind_speed = 0,
     env_wind_direction = 0\<rparr>"

definition default_MotorConfig :: MotorConfig where
  "default_MotorConfig =
    \<lparr>motor_type = SOLID, motor_thrust_source = None, motor_burn_time = 1.5,
     motor_total_impulse = 100, motor_avg_thrust = 50, motor_propellant_mass = 0.05,
     motor_dry_mass = 0.03, motor_nozzle_radius = 0.015, motor_throat_radius = 0.005,
     motor_grain_outer_radius = 0.02, motor_grain_initial_inner_radius = 0.008,
     motor_grain_initial_height = 0.05, motor_grain_number = 1,
     motor_grain_separation = 0.002, motor_grain_density = 1700,
     motor_thrust_curve = None\<rparr>"

definition default_FinConfig :: FinConfig where
  "default_FinConfig =
    \<lparr>fin_n = 3, fin_root_chord = 0.08, fin_tip_chord = 0.03, fin_span = 0.06,
     fin_sweep_length = None, fin_sweep_angle = None, fin_cant_angle = 0,
     fin_position = -0.1\<rparr>"

definition default_ParachuteConfig :: ParachuteConfig where
  "default_ParachuteConfig =
    \<lparr>chute_name = ''Main'', chute_cd_s = 1.0, chute_trigger = ''apogee'',
     chute_sampling_rate = 100, chute_lag = 1.5, chute_noise = [0, 8.3, 0.5]\<rparr>"

definition default_RocketConfig :: RocketConfig where
  "default_RocketConfig =
    \<lparr>rocket_mass = 0.5, rocket_radius = 0.025, rocket_inertia_i = 0.01,
     rocket_inertia_z = 0.001, rocket_center_of_mass = 0.3,
     rocket_power_off_drag = None, rocket_power_on_drag = None, rocket_nose = None,
     rocket_fins = None, rocket_motor = default_MotorConfig,
     rocket_parachutes = None\<rparr>"

definition default_FlightConfig :: FlightConfig where
  "default_FlightConfig =
    \<lparr>flight_rail_length = 2.0, flight_inclination = 85, flight_heading = 0,
     flight_max_time = 600, flight_max_time_step = 0.01,
     flight_terminate_on_apogee = False\<rparr>"

definition default_SimulationRequest :: SimulationRequest where
  "default_SimulationRequest =
    \<lparr>req_environment = default_EnvironmentConfig, req_rocket = default_RocketConfig,
     req_flight = default_FlightConfig, req_output_sampling_rate = 100\<rparr>"

subsection \<open>The stability endpoint\<close>

record StabilityResult =
  stab_cp_position :: real
  stab_cg_position :: real
  stab_stability_margin :: real
  stab_stable :: bool
  stab_recommendation :: string

text \<open>
  \<^verbatim>\<open>calculate_stability\<close> (lines 986-1029). The three divisions raise
  \<^verbatim>\<open>ZeroDivisionError\<close> on a zero divisor: \<^verbatim>\<open>span / (2 * radius)\<close> (only with fins),
  \<^verbatim>\<open>... / total_cn\<close> and \<^verbatim>\<open>(cp - cg) / (2 * radius)\<close>; the square of
  \<^verbatim>\<open>span / (2 * radius)\<close> raises \<^verbatim>\<open>OverflowError\<close> when it overflows. \<^verbatim>\<open>fin_area\<close> is
  computed and never read.
\<close>

definition calculate_stability :: "RocketConfig \<Rightarrow> exn + StabilityResult" where
  "calculate_stability rocket =
    (let radius = rocket_radius rocket;
         nose_length = (case rocket_nose rocket of Some nose \<Rightarrow> nose_length nose | None \<Rightarrow> 0.1);
         nose_cp = nose_length * 0.466;
         fin_cp = (case rocket_fins rocket of
                     Some fins \<Rightarrow> \<bar>fin_position fins\<bar> + fin_root_chord fins * 0.4
                   | None \<Rightarrow> 0.2);
         nose_cn = 2
     in bind_exn
          (case rocket_fins rocket of
             Some fins \<Rightarrow>
               bind_exn (py_div (fin_span fins) (2 * radius))
                 (\<lambda>q. bind_exn (py_square q)
                    (\<lambda>q_squared. Inr (4 * of_int (fin_n fins) * q_squared)))
           | None \<Rightarrow> Inr 4)
          (\<lambda>fin_cn.
             let total_cn = nose_cn + fin_cn
             in bind_exn (py_div (nose_cn * nose_cp + fin_cn * fin_cp) total_cn)
                  (\<lambda>cp.
                     let cg = rocket_center_of_mass rocket
                     in bind_exn (py_div (cp - cg) (2 * radius))
                          (\<lambda>stability_margin.
                             Inr \<lparr>stab_cp_position = cp,
                                  stab_cg_position = cg,
                                  stab_stability_margin = stability_margin,
                                  stab_stable = (stability_margin > 1.0),
                                  stab_recommendation =
                                    (if stability_margin > 1.5 then ''Stable''
                                     else if stability_margin > 1.0 then ''Marginally stable''
                                     else ''Unstable - add weight to nose or move fins aft'')\<rparr>))))"

subsection \<open>Response models\<close>

record TrajectoryPoint =
  pt_time :: real
  pt_x :: real
  pt_y :: real
  pt_z :: real
  pt_vx :: real
  pt_vy :: real
  pt_vz :: real
  pt_ax :: real
  pt_ay :: real
  pt_az :: real
  pt_pitch :: real
  pt_yaw :: real
  pt_roll :: real
  pt_mach :: real
  pt_dynamic_pressure :: real
  pt_angle_of_attack :: real

record FlightEvent =
  ev_name :: string
  ev_time :: real
  ev_altitude :: "real option"
  ev_velocity :: "real option"

record SimulationResult =
  res_success :: bool
  res_message :: string
  res_apogee :: real
  res_apogee_time :: real
  res_max_velocity :: real
  res_max_velocity_time :: real
  res_max_acceleration :: real
  res_max_mach :: real
  res_flight_time :: real
  res_landing_velocity :: real
  res_landing_position :: "real list"
  res_out_of_rail_velocity :: real
  res_out_of_rail_stability :: real
  res_trajectory :: "TrajectoryPoint list"
  res_events :: "FlightEvent list"
  res_stability_margin_initial :: real
  res_stability_margin_burnout :: real
  res_cp_position :: real
  res_cg_position :: real

record MonteCarloResult =
  mc_success :: bool
  mc_num_simulations :: int
  mc_apogee_mean :: real
  mc_apogee_std :: real
  mc_apogee_min :: real
  mc_apogee_max :: real
  mc_landing_dispersion_mean :: real
  mc_landing_dispersion_std :: real
  mc_landing_positions :: "real list list"

subsection \<open>The fallback path: \<^verbatim>\<open>create_mock_result\<close>\<close>

text \<open>
  One pass through the body of the \<^verbatim>\<open>while\<close> loop (lines 762-786) at time \<open>t\<close>:
  \<open>Inr None\<close> is the \<^verbatim>\<open>break\<close>, \<open>Inr (Some p)\<close> the sample appended. The first
  four arguments are the locals \<^verbatim>\<open>mass\<close>, \<^verbatim>\<open>thrust\<close>, \<^verbatim>\<open>burn_time\<close> and the
  request's \<^verbatim>\<open>propellant_mass\<close>.
  \<^verbatim>\<open>propellant_mass * t / burn_time\<close> and \<^verbatim>\<open>thrust / (...)\<close> raise on a zero divisor,
  \<^verbatim>\<open>trajectory[-1]\<close> raises on an empty list, and \<^verbatim>\<open>v**2\<close>, evaluated for a sample
  that is appended, raises when it overflows.
\<close>

definition mock_step ::
  "real \<Rightarrow> real \<Rightarrow> real \<Rightarrow> real \<Rightarrow> real \<Rightarrow> real \<Rightarrow> TrajectoryPoint list
    \<Rightarrow> exn + TrajectoryPoint option" where
  "mock_step mass thrust burn_time propellant_mass dt t trajectory =
    (let g = 9.81
     in bind_exn
          (if t < burn_time then
             bind_exn (py_div (propellant_mass * t) burn_time)
               (\<lambda>used. bind_exn (py_div thrust (mass - used)) (\<lambda>q. Inr (q - g)))
           else Inr (- g))
          (\<lambda>a. bind_exn
             (if t = 0 then Inr (0, 0)
              else if trajectory = [] then Inl IndexError
              else
                (let prev = last trajectory;
                     v = pt_vz prev + a * dt;
                     z = pt_z prev + v * dt
                 in Inr (v, z)))
             (\<lambda>(v, z).
                if z < 0 \<and> t > burn_time then Inr None
                else bind_exn (py_square v)
                  (\<lambda>v_squared. Inr (Some
                     \<lparr>pt_time = t, pt_x = 0, pt_y = 0, pt_z = max 0 z,
                      pt_vx = 0, pt_vy = 0, pt_vz = v,
                      pt_ax = 0, pt_ay = 0, pt_az = a,
                      pt_pitch = 90, pt_yaw = 0, pt_roll = 0,
                      pt_mach = v / 340, pt_dynamic_pressure = 0.5 * 1.225 * v_squared,
                      pt_angle_of_attack = 0\<rparr>)))))"

text \<open>
  The loop \<^verbatim>\<open>while t < apogee_time * 2.5\<close>. Nothing in the source bounds the number of
  passes, so the loop is a partial function: \<open>None\<close> is a run that never leaves the
  loop. The result is the final \<open>t\<close> and the trajectory.
\<close>

partial_function (option) mock_loop ::
  "real \<Rightarrow> real \<Rightarrow> real \<Rightarrow> real \<Rightarrow> real \<Rightarrow> real \<Rightarrow> real \<Rightarrow> TrajectoryPoint list
    \<Rightarrow> (exn + real \<times> TrajectoryPoint list) option" where
  "mock_loop mass thrust burn_time propellant_mass dt apogee_time t trajectory =
    (if t < apogee_time * 2.5 then
       (case mock_step mass thrust burn_time propellant_mass dt t trajectory of
          Inl e \<Rightarrow> Some (Inl e)
        | Inr None \<Rightarrow> Some (Inr (t, trajectory))
        | Inr (Some p) \<Rightarrow>
            mock_loop mass thrust burn_time propellant_mass dt apogee_time (t + dt)
              (trajectory @ [p]))
     else Some (Inr (t, trajectory)))"

text \<open>
  \<^verbatim>\<open>create_mock_result\<close> (lines 734-816). In the order of the source,
  \<^verbatim>\<open>thrust / avg_mass\<close> raises on a zero divisor, \<^verbatim>\<open>burn_time**2\<close> and
  \<^verbatim>\<open>coast_time**2\<close> raise when they overflow, and
  \<^verbatim>\<open>1.0 / request.output_sampling_rate\<close> raises on a zero divisor; \<^verbatim>\<open>v_burnout / g\<close>
  divides by the constant 9.81.
\<close>

definition create_mock_result :: "SimulationRequest \<Rightarrow> (exn + SimulationResult) option" where
  "create_mock_result request =
    (let motor = rocket_motor (req_rocket request);
         mass = rocket_mass (req_rocket request) + motor_propellant_mass motor + motor_dry_mass motor;
         thrust = motor_avg_thrust motor;
         burn_time = motor_burn_time motor;
         g = 9.81;
         avg_mass = mass - motor_propellant_mass motor / 2
     in case py_div thrust avg_mass of
          Inl e \<Rightarrow> Some (Inl e)
        | Inr q \<Rightarrow>
            (let a_burn = q - g;
                 v_burnout = a_burn * burn_time
             in case py_square burn_time of
                  Inl e \<Rightarrow> Some (Inl e)
                | Inr burn_time_squared \<Rightarrow>
            (let h_burnout = 0.5 * a_burn * burn_time_squared;
                 coast_time = v_burnout / g
             in case py_square coast_time of
                  Inl e \<Rightarrow> Some (Inl e)
                | Inr coast_time_squared \<Rightarrow>
            (let h_coast = v_burnout * coast_time - 0.5 * g * coast_time_squared;
                 apogee = h_burnout + h_coast;
                 apogee_time = burn_time + coast_time
             in case py_div 1.0 (req_output_sampling_rate request) of
                  Inl e \<Rightarrow> Some (Inl e)
                | Inr dt \<Rightarrow>
                    (case mock_loop mass thrust burn_time (motor_propellant_mass motor) dt apogee_time 0 [] of
                       None \<Rightarrow> None
                     | Some (Inl e) \<Rightarrow> Some (Inl e)
                     | Some (Inr (t, trajectory)) \<Rightarrow>
                         (let events =
                                [\<lparr>ev_name = ''liftoff'', ev_time = 0, ev_altitude = Some 0,
                                  ev_velocity = None\<rparr>,
                                 \<lparr>ev_name = ''burnout'', ev_time = burn_time, ev_altitude = None,
                                  ev_velocity = None\<rparr>,
                                 \<lparr>ev_name = ''apogee'', ev_time = apogee_time,
                                  ev_altitude = Some apogee, ev_velocity = None\<rparr>,
                                 \<lparr>ev_name = ''landing'', ev_time = t, ev_altitude = None,
                                  ev_velocity =
                                    Some (if trajectory \<noteq> [] then pt_vz (last trajectory) else 0)\<rparr>]
                          in Some (Inr
                            \<lparr>res_success = True,
                             res_message = ''Mock simulation (RocketPy not installed)'',
                             res_apogee = apogee,
                             res_apogee_time = apogee_time,
                             res_max_velocity = v_burnout,
                             res_max_velocity_time = burn_time,
                             res_max_acceleration = a_burn,
                             res_max_mach = v_burnout / 340,
                             res_flight_time = t,
                             res_landing_velocity =
                               (if trajectory \<noteq> [] then \<bar>pt_vz (last trajectory)\<bar> else 0),
                             res_landing_position = [0, 0],
                             res_out_of_rail_velocity = 20,
                             res_out_of_rail_stability = 2.0,
                             res_trajectory = trajectory,
                             res_events = events,
                             res_stability_margin_initial = 2.0,
                             res_stability_margin_burnout = 2.5,
                             res_cp_position = 0.25,
                             res_cg_position = 0.2\<rparr>)))))))"

subsection \<open>The RocketPy library, as a parameter\<close>

text \<open>
  RocketPy is imported, not part of the repository. Its presence is the flag
  \<^verbatim>\<open>ROCKETPY_AVAILABLE\<close>: below, an argument \<open>rocketpy\<close> of type \<open>rocketpy option\<close>, with
  \<open>None\<close> for the failed import. A present library is a record of the constructors and
  methods the server calls; each may raise, and each method that mutates its object
  returns the object. A parachute trigger, in the source one of two lambdas, is a value
  of \<open>Trigger\<close>. Attributes of the flight object are looked up by name, \<open>None\<close> meaning
  that \<^verbatim>\<open>hasattr\<close> is false.
\<close>

datatype Trigger = Apogee | AltitudeBelow real

record SolidMotor_args =
  sm_thrust_source :: "real list list"
  sm_burn_time :: real
  sm_grain_number :: int
  sm_grain_separation :: real
  sm_grain_density :: real
  sm_grain_outer_radius :: real
  sm_grain_initial_inner_radius :: real
  sm_grain_initial_height :: real
  sm_nozzle_radius :: real
  sm_throat_radius :: real
  sm_interpolation_method :: string
  sm_dry_mass :: real
  sm_center_of_dry_mass_position :: real
  sm_dry_inertia :: "real \<times> real \<times> real"
  sm_nozzle_position :: real
  sm_coordinate_system_orientation :: string

record Rocket_args =
  rk_radius :: real
  rk_mass :: real
  rk_inertia :: "real \<times> real \<times> real"
  rk_power_off_drag :: "real list list"
  rk_power_on_drag :: "real list list"
  rk_center_of_mass_without_motor :: real
  rk_coordinate_system_orientation :: string

text \<open>In \<open>Fins_args\<close>, \<open>None\<close> is a keyword that is \<^verbatim>\<open>None\<close> or not passed.\<close>

record Fins_args =
  tf_n :: int
  tf_root_chord :: real
  tf_tip_chord :: real
  tf_span :: real
  tf_sweep_length :: "real option"
  tf_cant_angle :: "real option"
  tf_position :: real

record Parachute_args =
  pa_name :: string
  pa_cd_s :: real
  pa_trigger :: Trigger
  pa_sampling_rate :: real
  pa_lag :: real
  pa_noise :: "real list"

record Flight_args =
  fl_rail_length :: real
  fl_inclination :: real
  fl_heading :: real
  fl_max_time :: real
  fl_max_time_step :: real
  fl_terminate_on_apogee :: bool

record ('e, 'm, 'r, 'f) rocketpy =
  Environment :: "real \<Rightarrow> real \<Rightarrow> real \<Rightarrow> exn + 'e"
  set_atmospheric_model :: "'e \<Rightarrow> string \<Rightarrow> (real \<times> real) option \<Rightarrow> exn + 'e"
  SolidMotor :: "SolidMotor_args \<Rightarrow> exn + 'm"
  Rocket :: "Rocket_args \<Rightarrow> exn + 'r"
  add_motor :: "'r \<Rightarrow> 'm \<Rightarrow> real \<Rightarrow> exn + 'r"
  add_nose :: "'r \<Rightarrow> real \<Rightarrow> string \<Rightarrow> real \<Rightarrow> exn + 'r"
  add_trapezoidal_fins :: "'r \<Rightarrow> Fins_args \<Rightarrow> exn + 'r"
  add_parachute :: "'r \<Rightarrow> Parachute_args \<Rightarrow> exn + 'r"
  Flight :: "'r \<Rightarrow> 'e \<Rightarrow> Flight_args \<Rightarrow> exn + 'f"
  get_solution :: "'f \<Rightarrow> real \<Rightarrow> exn + unit"
  flight_attribute :: "'f \<Rightarrow> string \<Rightarrow> (exn + real) option"
  flight_method :: "'f \<Rightarrow> string \<Rightarrow> (real \<Rightarrow> exn + real) option"
  motor_burn_time_of :: "'m \<Rightarrow> exn + real"
  static_margin :: "'r \<Rightarrow> real \<Rightarrow> exn + real"
  center_of_mass :: "'r \<Rightarrow> real \<Rightarrow> exn + real"

text \<open>\<^verbatim>\<open>flight.name\<close>: a missing attribute raises.\<close>

definition getattr :: "('e, 'm, 'r, 'f) rocketpy \<Rightarrow> 'f \<Rightarrow> string \<Rightarrow> exn + real" where
  "getattr rp flight name =
    (case flight_attribute rp flight name of None \<Rightarrow> Inl (AttributeError name) | Some v \<Rightarrow> v)"

text \<open>\<^verbatim>\<open>float(flight.name) if hasattr(flight, 'name') else d\<close>.\<close>

definition getattr_or :: "('e, 'm, 'r, 'f) rocketpy \<Rightarrow> 'f \<Rightarrow> string \<Rightarrow> real \<Rightarrow> exn + real" where
  "getattr_or rp flight name d =
    (case flight_attribute rp flight name of None \<Rightarrow> Inr d | Some v \<Rightarrow> v)"

text \<open>\<^verbatim>\<open>flight.name(t)\<close>.\<close>

definition call :: "('e, 'm, 'r, 'f) rocketpy \<Rightarrow> 'f \<Rightarrow> string \<Rightarrow> real \<Rightarrow> exn + real" where
  "call rp flight name t =
    (case flight_method rp flight name of None \<Rightarrow> Inl (AttributeError name) | Some f \<Rightarrow> f t)"

text \<open>\<^verbatim>\<open>float(flight.name(t)) if hasattr(flight, 'name') else 0\<close>.\<close>

definition call_or_zero :: "('e, 'm, 'r, 'f) rocketpy \<Rightarrow> 'f \<Rightarrow> string \<Rightarrow> real \<Rightarrow> exn + real" where
  "call_or_zero rp flight name t =
    (case flight_method rp flight name of None \<Rightarrow> Inr 0 | Some f \<Rightarrow> f t)"

text \<open>
  \<^verbatim>\<open>np.arange(0, stop, step)\<close>: the values \<open>i * step\<close> for \<open>i\<close> below
  \<open>ceil(stop / step)\<close>, none when that is not positive.
\<close>

definition np_arange :: "real \<Rightarrow> real \<Rightarrow> real list" where
  "np_arange stop step = map (\<lambda>i. real i * step) [0..<nat \<lceil>stop / step\<rceil>]"

subsection \<open>The high-fidelity path\<close>

text \<open>
  The thrust curve handed to the motor (lines 467-478): the configured one when it is
  given and not empty, otherwise six points made from burn time and average thrust.
\<close>

definition thrust_source :: "MotorConfig \<Rightarrow> real list list" where
  "thrust_source config =
    (if motor_thrust_curve config \<noteq> None \<and> motor_thrust_curve config \<noteq> Some []
     then the (motor_thrust_curve config)
     else
       [[0, 0],
        [0.02, motor_avg_thrust config * 1.5],
        [motor_burn_time config * 0.1, motor_avg_thrust config * 1.2],
        [motor_burn_time config * 0.5, motor_avg_thrust config],
        [motor_burn_time config * 0.9, motor_avg_thrust config * 0.6],
        [motor_burn_time config, 0]])"

text \<open>
  \<^verbatim>\<open>create_rocketpy_motor\<close> (lines 461-520) with the library present; without it
  \<^verbatim>\<open>run_simulation\<close> never calls it. Both branches on the motor type make the same call.
\<close>

definition create_rocketpy_motor :: "('e, 'm, 'r, 'f) rocketpy \<Rightarrow> MotorConfig \<Rightarrow> exn + 'm" where
  "create_rocketpy_motor rp config =
    (let args =
       \<lparr>sm_thrust_source = thrust_source config,
        sm_burn_time = motor_burn_time config,
        sm_grain_number = motor_grain_number config,
        sm_grain_separation = motor_grain_separation config,
        sm_grain_density = motor_grain_density config,
        sm_grain_outer_radius = motor_grain_outer_radius config,
        sm_grain_initial_inner_radius = motor_grain_initial_inner_radius config,
        sm_grain_initial_height = motor_grain_initial_height config,
        sm_nozzle_radius = motor_nozzle_radius config,
        sm_throat_radius = motor_throat_radius config,
        sm_interpolation_method = ''linear'',
        sm_dry_mass = motor_dry_mass config,
        sm_center_of_dry_mass_position = 0,
        sm_dry_inertia = (0.001, 0.001, 0.0001),
        sm_nozzle_position =
          - motor_grain_initial_height config * of_int (motor_grain_number config) / 2,
        sm_coordinate_system_orientation = ''nozzle_to_combustion_chamber''\<rparr>
     in if motor_type config = SOLID then SolidMotor rp args else SolidMotor rp args)"

text \<open>
  The loop over the parachutes (lines 584-598). \<open>py_float\<close> is Python's \<^verbatim>\<open>float\<close> on a
  string, \<open>None\<close> where it raises \<^verbatim>\<open>ValueError\<close>; the comparison with \<^verbatim>\<open>"apogee"\<close> comes
  first. The error text quotes the string (the escapes of \<^verbatim>\<open>repr\<close> are not modelled).
\<close>

fun add_parachutes ::
  "(string \<Rightarrow> real option) \<Rightarrow> ('e, 'm, 'r, 'f) rocketpy \<Rightarrow> 'r \<Rightarrow> ParachuteConfig list \<Rightarrow> exn + 'r" where
  "add_parachutes py_float rp rocket [] = Inr rocket"
| "add_parachutes py_float rp rocket (chute # chutes) =
    bind_exn
      (if chute_trigger chute = ''apogee'' then Inr Apogee
       else (case py_float (chute_trigger chute) of
               None \<Rightarrow>
                 Inl (ValueError (''could not convert string to float: '' @
                        [CHR 0x27] @ chute_trigger chute @ [CHR 0x27]))
             | Some alt \<Rightarrow> Inr (AltitudeBelow alt)))
      (\<lambda>trigger. bind_exn
         (add_parachute rp rocket
            \<lparr>pa_name = chute_name chute, pa_cd_s = chute_cd_s chute, pa_trigger = trigger,
             pa_sampling_rate = chute_sampling_rate chute, pa_lag = chute_lag chute,
             pa_noise = chute_noise chute\<rparr>)
         (\<lambda>rocket'. add_parachutes py_float rp rocket' chutes))"

text \<open>
  \<^verbatim>\<open>create_rocketpy_rocket\<close> (lines 522-600) with the library present. The local
  \<^verbatim>\<open>nose_radius\<close> is computed and never read.
\<close>

definition create_rocketpy_rocket ::
  "(string \<Rightarrow> real option) \<Rightarrow> ('e, 'm, 'r, 'f) rocketpy \<Rightarrow> RocketConfig \<Rightarrow> 'm \<Rightarrow> exn + 'r" where
  "create_rocketpy_rocket py_float rp config motor =
    (let power_off_drag =
           (if rocket_power_off_drag config \<noteq> None \<and> rocket_power_off_drag config \<noteq> Some []
            then the (rocket_power_off_drag config)
            else [[0, 0.5], [0.5, 0.5], [1.0, 0.55], [1.5, 0.6], [2.0, 0.55]]);
         power_on_drag =
           (if rocket_power_on_drag config \<noteq> None \<and> rocket_power_on_drag config \<noteq> Some []
            then the (rocket_power_on_drag config)
            else [[0, 0.45], [0.5, 0.45], [1.0, 0.5], [1.5, 0.55], [2.0, 0.5]])
     in bind_exn
          (Rocket rp
             \<lparr>rk_radius = rocket_radius config, rk_mass = rocket_mass config,
              rk_inertia = (rocket_inertia_i config, rocket_inertia_i config, rocket_inertia_z config),
              rk_power_off_drag = power_off_drag, rk_power_on_drag = power_on_drag,
              rk_center_of_mass_without_motor = rocket_center_of_mass config,
              rk_coordinate_system_orientation = ''nose_to_tail''\<rparr>)
       (\<lambda>rocket. bind_exn (add_motor rp rocket motor (- rocket_center_of_mass config * 0.8))
       (\<lambda>rocket. bind_exn
          (case rocket_nose config of
             Some nose \<Rightarrow>
               add_nose rp rocket (nose_length nose) (NoseShape_value (nose_kind nose))
                 (rocket_center_of_mass config + nose_length nose)
           | None \<Rightarrow> add_nose rp rocket 0.1 ''ogive'' (rocket_center_of_mass config + 0.1))
       (\<lambda>rocket. bind_exn
          (case rocket_fins config of
             Some fins \<Rightarrow>
               add_trapezoidal_fins rp rocket
                 \<lparr>tf_n = fin_n fins, tf_root_chord = fin_root_chord fins,
                  tf_tip_chord = fin_tip_chord fins, tf_span = fin_span fins,
                  tf_sweep_length = fin_sweep_length fins,
                  tf_cant_angle = Some (fin_cant_angle fins),
                  tf_position = fin_position fins\<rparr>
           | None \<Rightarrow>
               add_trapezoidal_fins rp rocket
                 \<lparr>tf_n = 3, tf_root_chord = 0.08, tf_tip_chord = 0.03, tf_span = 0.06,
                  tf_sweep_length = None, tf_cant_angle = None,
                  tf_position = - rocket_center_of_mass config * 0.9\<rparr>)
       (\<lambda>rocket.
          (case rocket_parachutes config of
             Some chutes \<Rightarrow>
               if chutes \<noteq> [] then add_parachutes py_float rp rocket chutes else Inr rocket
           | None \<Rightarrow> Inr rocket))))))"

text \<open>
  The first part of the \<^verbatim>\<open>try\<close> block of \<^verbatim>\<open>run_simulation\<close> (lines 610-643): the
  environment and its atmosphere, the motor, the rocket, and the flight, whose
  constructor runs the integration.
\<close>

definition create_environment :: "('e, 'm, 'r, 'f) rocketpy \<Rightarrow> EnvironmentConfig \<Rightarrow> exn + 'e" where
  "create_environment rp environment =
    bind_exn
      (Environment rp (env_latitude environment) (env_longitude environment)
         (env_elevation environment))
      (\<lambda>env.
         if env_atmosphere_type environment = STANDARD then
           set_atmospheric_model rp env ''standard_atmosphere'' None
         else if env_atmosphere_type environment = CUSTOM then
           set_atmospheric_model rp env ''custom_atmosphere''
             (Some (env_wind_speed environment * cos (env_wind_direction environment * pi / 180),
                    env_wind_speed environment * sin (env_wind_direction environment * pi / 180)))
         else Inr env)"

definition build_flight ::
  "(string \<Rightarrow> real option) \<Rightarrow> ('e, 'm, 'r, 'f) rocketpy \<Rightarrow> SimulationRequest \<Rightarrow> exn + 'm \<times> 'r \<times> 'f" where
  "build_flight py_float rp request =
    bind_exn (create_environment rp (req_environment request))
      (\<lambda>env. bind_exn (create_rocketpy_motor rp (rocket_motor (req_rocket request)))
      (\<lambda>motor. bind_exn (create_rocketpy_rocket py_float rp (req_rocket request) motor)
      (\<lambda>rocket. bind_exn
         (Flight rp rocket env
            \<lparr>fl_rail_length = flight_rail_length (req_flight request),
             fl_inclination = flight_inclination (req_flight request),
             fl_heading = flight_heading (req_flight request),
             fl_max_time = flight_max_time (req_flight request),
             fl_max_time_step = flight_max_time_step (req_flight request),
             fl_terminate_on_apogee = flight_terminate_on_apogee (req_flight request)\<rparr>)
      (\<lambda>flight. Inr (motor, rocket, flight)))))"

text \<open>One trajectory sample (lines 652-670), the keyword arguments in their order.\<close>

definition trajectory_point :: "('e, 'm, 'r, 'f) rocketpy \<Rightarrow> 'f \<Rightarrow> real \<Rightarrow> exn + TrajectoryPoint" where
  "trajectory_point rp flight t =
    bind_exn (get_solution rp flight t)
      (\<lambda>state. bind_exn (call rp flight ''x'' t)
      (\<lambda>x. bind_exn (call rp flight ''y'' t)
      (\<lambda>y. bind_exn (call rp flight ''z'' t)
      (\<lambda>z. bind_exn (call rp flight ''vx'' t)
      (\<lambda>vx. bind_exn (call rp flight ''vy'' t)
      (\<lambda>vy. bind_exn (call rp flight ''vz'' t)
      (\<lambda>vz. bind_exn (call_or_zero rp flight ''ax'' t)
      (\<lambda>ax. bind_exn (call_or_zero rp flight ''ay'' t)
      (\<lambda>ay. bind_exn (call_or_zero rp flight ''az'' t)
      (\<lambda>az. bind_exn (call_or_zero rp flight ''attitude_angle'' t)
      (\<lambda>pitch. bind_exn (call rp flight ''mach_number'' t)
      (\<lambda>mach. bind_exn (call rp flight ''dynamic_pressure'' t)
      (\<lambda>dynamic_pressure. bind_exn (call rp flight ''angle_of_attack'' t)
      (\<lambda>angle_of_attack.
         Inr \<lparr>pt_time = t, pt_x = x, pt_y = y, pt_z = z, pt_vx = vx, pt_vy = vy, pt_vz = vz,
              pt_ax = ax, pt_ay = ay, pt_az = az, pt_pitch = pitch, pt_yaw = 0, pt_roll = 0,
              pt_mach = mach, pt_dynamic_pressure = dynamic_pressure,
              pt_angle_of_attack = angle_of_attack\<rparr>))))))))))))))"

text \<open>
  The loop over the sample times, \<^verbatim>\<open>times\<close> in the source (lines 650-672): the inner \<^verbatim>\<open>except: break\<close> ends the
  loop at the first sample that raises and keeps the samples collected so far.
\<close>

fun sample_trajectory :: "('e, 'm, 'r, 'f) rocketpy \<Rightarrow> 'f \<Rightarrow> real list \<Rightarrow> TrajectoryPoint list" where
  "sample_trajectory rp flight [] = []"
| "sample_trajectory rp flight (t # sample_times) =
    (case trajectory_point rp flight t of
       Inl e \<Rightarrow> []
     | Inr p \<Rightarrow> p # sample_trajectory rp flight sample_times)"

text \<open>The events (lines 675-689); the landing is added when \<^verbatim>\<open>impact_time\<close> is there and not zero.\<close>

definition flight_events ::
  "('e, 'm, 'r, 'f) rocketpy \<Rightarrow> 'm \<Rightarrow> 'f \<Rightarrow> exn + FlightEvent list" where
  "flight_events rp motor flight =
    bind_exn (getattr rp flight ''out_of_rail_time'')
      (\<lambda>out_of_rail_time. bind_exn (getattr rp flight ''out_of_rail_velocity'')
      (\<lambda>out_of_rail_velocity. bind_exn (motor_burn_time_of rp motor)
      (\<lambda>burn_time. bind_exn (getattr rp flight ''apogee_time'')
      (\<lambda>apogee_time. bind_exn (getattr rp flight ''apogee'')
      (\<lambda>apogee.
         let events =
               [\<lparr>ev_name = ''liftoff'', ev_time = 0, ev_altitude = Some 0, ev_velocity = None\<rparr>,
                \<lparr>ev_name = ''rail_departure'', ev_time = out_of_rail_time, ev_altitude = None,
                 ev_velocity = Some out_of_rail_velocity\<rparr>,
                \<lparr>ev_name = ''burnout'', ev_time = burn_time, ev_altitude = None,
                 ev_velocity = None\<rparr>,
                \<lparr>ev_name = ''apogee'', ev_time = apogee_time, ev_altitude = Some apogee,
                 ev_velocity = None\<rparr>]
         in (case flight_attribute rp flight ''impact_time'' of
               None \<Rightarrow> Inr events
             | Some (Inl e) \<Rightarrow> Inl e
             | Some (Inr impact_time) \<Rightarrow>
                 if impact_time \<noteq> 0 then
                   bind_exn (getattr_or rp flight ''impact_velocity'' 0)
                     (\<lambda>impact_velocity.
                        Inr (events @
                          [\<lparr>ev_name = ''landing'', ev_time = impact_time, ev_altitude = None,
                            ev_velocity = Some impact_velocity\<rparr>]))
                 else Inr events))))))"

text \<open>The stability margins (lines 692-697): any exception gives the pair 2.0, 2.0.\<close>

definition stability_info :: "('e, 'm, 'r, 'f) rocketpy \<Rightarrow> 'm \<Rightarrow> 'r \<Rightarrow> real \<times> real" where
  "stability_info rp motor rocket =
    (case bind_exn (static_margin rp rocket 0)
            (\<lambda>stability_initial. bind_exn (motor_burn_time_of rp motor)
            (\<lambda>burn_time. bind_exn (static_margin rp rocket burn_time)
            (\<lambda>stability_burnout. Inr (stability_initial, stability_burnout)))) of
       Inl e \<Rightarrow> (2.0, 2.0)
     | Inr margins \<Rightarrow> margins)"

text \<open>
  The second part of the \<^verbatim>\<open>try\<close> block (lines 645-720): resampling, events, stability
  margins and the successful result.
\<close>

definition read_flight ::
  "('e, 'm, 'r, 'f) rocketpy \<Rightarrow> SimulationRequest \<Rightarrow> 'm \<Rightarrow> 'r \<Rightarrow> 'f \<Rightarrow> exn + SimulationResult" where
  "read_flight rp request motor rocket flight =
    bind_exn (py_div 1.0 (req_output_sampling_rate request))
      (\<lambda>dt. bind_exn (getattr rp flight ''t_final'')
      (\<lambda>t_final.
         let sample_times = np_arange t_final dt;
             trajectory = sample_trajectory rp flight sample_times
         in bind_exn (flight_events rp motor flight)
      (\<lambda>events.
         let (stability_initial, stability_burnout) = stability_info rp motor rocket
         in bind_exn (getattr rp flight ''apogee'')
      (\<lambda>apogee. bind_exn (getattr rp flight ''apogee_time'')
      (\<lambda>apogee_time. bind_exn (getattr rp flight ''max_speed'')
      (\<lambda>max_speed. bind_exn (getattr_or rp flight ''max_speed_time'' 0)
      (\<lambda>max_speed_time. bind_exn (getattr_or rp flight ''max_acceleration'' 0)
      (\<lambda>max_acceleration. bind_exn (getattr_or rp flight ''max_mach_number'' 0)
      (\<lambda>max_mach_number. bind_exn (getattr rp flight ''t_final'')
      (\<lambda>flight_time. bind_exn (getattr_or rp flight ''impact_velocity'' 0)
      (\<lambda>impact_velocity. bind_exn (getattr_or rp flight ''x_impact'' 0)
      (\<lambda>x_impact. bind_exn (getattr_or rp flight ''y_impact'' 0)
      (\<lambda>y_impact. bind_exn (getattr rp flight ''out_of_rail_velocity'')
      (\<lambda>out_of_rail_velocity. bind_exn
         (getattr_or rp flight ''out_of_rail_static_margin'' stability_initial)
      (\<lambda>out_of_rail_stability. bind_exn (center_of_mass rp rocket 0)
      (\<lambda>cg_position.
         Inr \<lparr>res_success = True,
              res_message = ''Simulation completed successfully'',
              res_apogee = apogee,
              res_apogee_time = apogee_time,
              res_max_velocity = max_speed,
              res_max_velocity_time = max_speed_time,
              res_max_acceleration = max_acceleration,
              res_max_mach = max_mach_number,
              res_flight_time = flight_time,
              res_landing_velocity = impact_velocity,
              res_landing_position = [x_impact, y_impact],
              res_out_of_rail_velocity = out_of_rail_velocity,
              res_out_of_rail_stability = out_of_rail_stability,
              res_trajectory = trajectory,
              res_events = events,
              res_stability_margin_initial = stability_initial,
              res_stability_margin_burnout = stability_burnout,
              res_cp_position = 0,
              res_cg_position = cg_position\<rparr>))))))))))))))))"

text \<open>
  The \<^verbatim>\<open>try\<close> statement of \<^verbatim>\<open>run_simulation\<close> (lines 609-732): \<^verbatim>\<open>except Exception\<close>
  turns every exception of the block into the failed result.
\<close>

definition run_highfidelity ::
  "(string \<Rightarrow> real option) \<Rightarrow> ('e, 'm, 'r, 'f) rocketpy \<Rightarrow> SimulationRequest \<Rightarrow> SimulationResult" where
  "run_highfidelity py_float rp request =
    (case bind_exn (build_flight py_float rp request)
            (\<lambda>(motor, rocket, flight). read_flight rp request motor rocket flight) of
       Inr result \<Rightarrow> result
     | Inl e \<Rightarrow>
         \<lparr>res_success = False,
          res_message = ''Simulation failed: '' @ str_exn e,
          res_apogee = 0, res_apogee_time = 0, res_max_velocity = 0,
          res_max_velocity_time = 0, res_max_acceleration = 0, res_max_mach = 0,
          res_flight_time = 0, res_landing_velocity = 0,
          res_landing_position = [0, 0], res_out_of_rail_velocity = 0,
          res_out_of_rail_stability = 0,
          res_trajectory = [], res_events = [],
          res_stability_margin_initial = 0, res_stability_margin_burnout = 0,
          res_cp_position = 0, res_cg_position = 0\<rparr>)"

text \<open>
  \<^verbatim>\<open>run_simulation\<close> (lines 602-732). Without the library it returns what
  \<^verbatim>\<open>create_mock_result\<close> returns, raises or loops on.
\<close>

definition run_simulation ::
  "(string \<Rightarrow> real option) \<Rightarrow> ('e, 'm, 'r, 'f) rocketpy option \<Rightarrow> SimulationRequest
    \<Rightarrow> (exn + SimulationResult) option" where
  "run_simulation py_float rocketpy request =
    (case rocketpy of
       None \<Rightarrow> create_mock_result request
     | Some rp \<Rightarrow> Some (Inr (run_highfidelity py_float rp request)))"

subsection \<open>The Monte Carlo endpoint\<close>

text \<open>
  The numpy reductions the endpoint uses, by their definitions (\<^verbatim>\<open>np.std\<close> is the
  population standard deviation). The server calls them on non-empty lists only; on an
  empty list \<^verbatim>\<open>np.min\<close> and \<^verbatim>\<open>np.max\<close> raise. numpy's own arithmetic does not raise
  on overflow.
\<close>

definition np_mean :: "real list \<Rightarrow> real" where
  "np_mean xs = sum_list xs / real (length xs)"

definition np_std :: "real list \<Rightarrow> real" where
  "np_std xs = sqrt (np_mean (map (\<lambda>x. \<bar>x - np_mean xs\<bar>\<^sup>2) xs))"

definition np_min :: "real list \<Rightarrow> exn + real" where
  "np_min xs =
    (if xs = [] then Inl (ValueError ''zero-size array to reduction operation minimum which has no identity'')
     else Inr (Min (set xs)))"

definition np_max :: "real list \<Rightarrow> exn + real" where
  "np_max xs =
    (if xs = [] then Inl (ValueError ''zero-size array to reduction operation maximum which has no identity'')
     else Inr (Max (set xs)))"

text \<open>\<^verbatim>\<open>xs[i]\<close> for a literal index \<open>i \<ge> 0\<close>.\<close>

definition py_index :: "'a list \<Rightarrow> nat \<Rightarrow> exn + 'a" where
  "py_index xs i = (if i < length xs then Inr (xs ! i) else Inl IndexError)"

text \<open>A list comprehension whose element expression may raise.\<close>

fun map_exn :: "('a \<Rightarrow> exn + 'b) \<Rightarrow> 'a list \<Rightarrow> exn + 'b list" where
  "map_exn f [] = Inr []"
| "map_exn f (x # xs) =
    bind_exn (f x) (\<lambda>y. bind_exn (map_exn f xs) (\<lambda>ys. Inr (y # ys)))"

text \<open>
  \<^verbatim>\<open>np.sqrt(p[0]**2 + p[1]**2)\<close> (line 971): the two squares are squares of Python
  floats and raise when they overflow.
\<close>

definition dispersion :: "real list \<Rightarrow> exn + real" where
  "dispersion p =
    bind_exn (py_index p 0)
      (\<lambda>p0. bind_exn (py_square p0)
      (\<lambda>p0_squared. bind_exn (py_index p 1)
      (\<lambda>p1. bind_exn (py_square p1)
      (\<lambda>p1_squared. Inr (sqrt (p0_squared + p1_squared))))))"

text \<open>
  The copy of the base request with its three perturbed fields (lines 945-952); the
  deep copy leaves the base request as it was.
\<close>

definition perturbed_request :: "SimulationRequest \<Rightarrow> real \<Rightarrow> real \<Rightarrow> real \<Rightarrow> SimulationRequest" where
  "perturbed_request base d_wind_speed d_wind_direction d_mass =
    base
      \<lparr>req_environment :=
         (req_environment base)
           \<lparr>env_wind_speed := env_wind_speed (req_environment base) + d_wind_speed,
            env_wind_direction := env_wind_direction (req_environment base) + d_wind_direction\<rparr>,
       req_rocket :=
         (req_rocket base)\<lparr>rocket_mass := rocket_mass (req_rocket base) + d_mass\<rparr>\<rparr>"

text \<open>
  The loop \<^verbatim>\<open>for i in range(request.num_simulations)\<close> (lines 943-959), from pass \<open>i\<close>
  with \<open>k\<close> passes left. The random source is a parameter: \<open>normal n loc scale\<close> is what
  the \<open>n\<close>-th call of \<^verbatim>\<open>np.random.normal(loc, scale)\<close> in the request returns or raises;
  pass \<open>i\<close> makes the calls \<open>3 i\<close>, \<open>3 i + 1\<close> and \<open>3 i + 2\<close>.
\<close>

fun mc_loop ::
  "(string \<Rightarrow> real option) \<Rightarrow> ('e, 'm, 'r, 'f) rocketpy \<Rightarrow> (nat \<Rightarrow> real \<Rightarrow> real \<Rightarrow> exn + real)
    \<Rightarrow> MonteCarloRequest \<Rightarrow> nat \<Rightarrow> nat \<Rightarrow> SimulationResult list \<Rightarrow> real list list
    \<Rightarrow> (exn + SimulationResult list \<times> real list list) option" where
  "mc_loop py_float rp normal request i 0 results landing_positions =
    Some (Inr (results, landing_positions))"
| "mc_loop py_float rp normal request i (Suc k) results landing_positions =
    (case normal (3 * i) 0 (mcreq_wind_speed_std request) of
       Inl e \<Rightarrow> Some (Inl e)
     | Inr d_wind_speed \<Rightarrow>
    (case normal (3 * i + 1) 0 (mcreq_wind_direction_std request) of
       Inl e \<Rightarrow> Some (Inl e)
     | Inr d_wind_direction \<Rightarrow>
    (case normal (3 * i + 2) 0 (mcreq_mass_std request) of
       Inl e \<Rightarrow> Some (Inl e)
     | Inr d_mass \<Rightarrow>
    (case run_simulation py_float (Some rp)
            (perturbed_request (mcreq_base_simulation request)
               d_wind_speed d_wind_direction d_mass) of
       None \<Rightarrow> None
     | Some (Inl e) \<Rightarrow> Some (Inl e)
     | Some (Inr result) \<Rightarrow>
         if res_success result then
           mc_loop py_float rp normal request (Suc i) k
             (results @ [result]) (landing_positions @ [res_landing_position result])
         else mc_loop py_float rp normal request (Suc i) k results landing_positions))))"

text \<open>
  \<^verbatim>\<open>monte_carlo\<close> (lines 917-983). Without the library the answer is the fixed one of
  lines 926-937, with two draws for each of at most 100 landing positions.
\<close>

definition monte_carlo ::
  "(string \<Rightarrow> real option) \<Rightarrow> ('e, 'm, 'r, 'f) rocketpy option \<Rightarrow> (nat \<Rightarrow> real \<Rightarrow> real \<Rightarrow> exn + real)
    \<Rightarrow> MonteCarloRequest \<Rightarrow> (exn + MonteCarloResult) option" where
  "monte_carlo py_float rocketpy normal request =
    (case rocketpy of
       None \<Rightarrow>
         (case map_exn
                 (\<lambda>j. bind_exn (normal (2 * j) 0 50)
                    (\<lambda>a. bind_exn (normal (2 * j + 1) 0 50) (\<lambda>b. Inr [a, b])))
                 [0..<nat (min (mcreq_num_simulations request) 100)] of
            Inl e \<Rightarrow> Some (Inl e)
          | Inr landing_positions \<Rightarrow>
              Some (Inr
                \<lparr>mc_success = True,
                 mc_num_simulations = mcreq_num_simulations request,
                 mc_apogee_mean = 500, mc_apogee_std = 25,
                 mc_apogee_min = 450, mc_apogee_max = 550,
                 mc_landing_dispersion_mean = 50, mc_landing_dispersion_std = 20,
                 mc_landing_positions = landing_positions\<rparr>))
     | Some rp \<Rightarrow>
         (case mc_loop py_float rp normal request 0 (nat (mcreq_num_simulations request)) [] [] of
            None \<Rightarrow> None
          | Some (Inl e) \<Rightarrow> Some (Inl e)
          | Some (Inr (results, landing_positions)) \<Rightarrow>
              if results = [] then
                Some (Inr
                  \<lparr>mc_success = False, mc_num_simulations = 0,
                   mc_apogee_mean = 0, mc_apogee_std = 0, mc_apogee_min = 0, mc_apogee_max = 0,
                   mc_landing_dispersion_mean = 0, mc_landing_dispersion_std = 0,
                   mc_landing_positions = []\<rparr>)
              else
                (let apogees = map res_apogee results
                 in Some
                   (bind_exn (map_exn dispersion landing_positions)
                   (\<lambda>dispersions. bind_exn (np_min apogees)
                   (\<lambda>apogee_min. bind_exn (np_max apogees)
                   (\<lambda>apogee_max.
                      Inr \<lparr>mc_success = True,
                           mc_num_simulations = int (length results),
                           mc_apogee_mean = np_mean apogees,
                           mc_apogee_std = np_std apogees,
                           mc_apogee_min = apogee_min,
                           mc_apogee_max = apogee_max,
                           mc_landing_dispersion_mean = np_mean dispersions,
                           mc_landing_dispersion_std = np_std dispersions,
                           mc_landing_positions = take 100 landing_positions\<rparr>)))))))"

subsection \<open>Concrete configurations\<close>

text \<open>
  A rocket without nose and fins entries whose margin is exactly 1.5, one whose margin
  is exactly 1.0, and one with the default fin set whose margin lies between the two.
\<close>

definition rocket_margin_1_5 :: RocketConfig where
  "rocket_margin_1_5 =
    default_RocketConfig\<lparr>rocket_radius := 2233 / 45000, rocket_center_of_mass := 0\<rparr>"

definition rocket_margin_1_0 :: RocketConfig where
  "rocket_margin_1_0 =
    default_RocketConfig\<lparr>rocket_radius := 2233 / 30000, rocket_center_of_mass := 0\<rparr>"

definition rocket_between :: RocketConfig where
  "rocket_between =
    default_RocketConfig\<lparr>rocket_fins := Some default_FinConfig, rocket_center_of_mass := 0.05\<rparr>"

text \<open>
  A request with a weak motor and one sample a second: its fallback flight has two
  samples. The same request with four invalid entries: a thrust curve whose times
  decrease, a nozzle radius of zero, a fin count of zero and a parachute trigger that
  is no number.
\<close>

definition demo_request :: SimulationRequest where
  "demo_request =
    default_SimulationRequest
      \<lparr>req_rocket :=
         default_RocketConfig\<lparr>rocket_motor := default_MotorConfig\<lparr>motor_avg_thrust := 6\<rparr>\<rparr>,
       req_output_sampling_rate := 1\<rparr>"

definition invalid_request :: SimulationRequest where
  "invalid_request =
    default_SimulationRequest
      \<lparr>req_rocket :=
         default_RocketConfig
           \<lparr>rocket_motor :=
              default_MotorConfig
                \<lparr>motor_avg_thrust := 6, motor_nozzle_radius := 0,
                 motor_thrust_curve := Some [[1, 5], [0, 3]]\<rparr>,
            rocket_fins := Some (default_FinConfig\<lparr>fin_n := 0\<rparr>),
            rocket_parachutes := Some [default_ParachuteConfig\<lparr>chute_trigger := ''abc''\<rparr>]\<rparr>,
       req_output_sampling_rate := 1\<rparr>"

text \<open>Python's \<^verbatim>\<open>float\<close> on the two strings the examples use.\<close>

definition float_on_samples :: "string \<Rightarrow> real option" where
  "float_on_samples s = (if s = ''300'' then Some 300 else None)"

text \<open>
  Two stand-ins for the library. The first refuses to build an environment. The second
  accepts everything and reports a flight of three seconds whose solution is defined up
  to two seconds, with altitude \<open>t (3 - t)\<close> and no acceleration accessors.
\<close>

definition refusing_rocketpy :: "(unit, unit, unit, unit) rocketpy" where
  "refusing_rocketpy =
    \<lparr>Environment = (\<lambda>latitude longitude elevation. Inl (EngineError ''no environment'')),
     set_atmospheric_model = (\<lambda>env kind wind. Inr env),
     SolidMotor = (\<lambda>args. Inr ()),
     Rocket = (\<lambda>args. Inr ()),
     add_motor = (\<lambda>rocket motor position. Inr rocket),
     add_nose = (\<lambda>rocket len kind position. Inr rocket),
     add_trapezoidal_fins = (\<lambda>rocket args. Inr rocket),
     add_parachute = (\<lambda>rocket args. Inr rocket),
     Flight = (\<lambda>rocket env args. Inr ()),
     get_solution = (\<lambda>flight t. Inr ()),
     flight_attribute = (\<lambda>flight name. None),
     flight_method = (\<lambda>flight name. None),
     motor_burn_time_of = (\<lambda>motor. Inr 0),
     static_margin = (\<lambda>rocket t. Inr 0),
     center_of_mass = (\<lambda>rocket t. Inr 0)\<rparr>"

definition toy_rocketpy :: "(unit, unit, unit, unit) rocketpy" where
  "toy_rocketpy =
    \<lparr>Environment = (\<lambda>latitude longitude elevation. Inr ()),
     set_atmospheric_model = (\<lambda>env kind wind. Inr env),
     SolidMotor = (\<lambda>args. Inr ()),
     Rocket = (\<lambda>args. Inr ()),
     add_motor = (\<lambda>rocket motor position. Inr rocket),
     add_nose = (\<lambda>rocket len kind position. Inr rocket),
     add_trapezoidal_fins = (\<lambda>rocket args. Inr rocket),
     add_parachute = (\<lambda>rocket args. Inr rocket),
     Flight = (\<lambda>rocket env args. Inr ()),
     get_solution =
       (\<lambda>flight t. if t \<le> 2 then Inr () else Inl (EngineError ''outside the solution'')),
     flight_attribute =
       (\<lambda>flight name.
          if name = ''t_final'' then Some (Inr 3)
          else if name = ''out_of_rail_time'' then Some (Inr 0.1)
          else if name = ''out_of_rail_velocity'' then Some (Inr 3)
          else if name = ''apogee_time'' then Some (Inr 1.5)
          else if name = ''apogee'' then Some (Inr 2.25)
          else if name = ''max_speed'' then Some (Inr 3)
          else if name = ''impact_time'' then Some (Inr 3)
          else None),
     flight_method =
       (\<lambda>flight name.
          if name = ''z'' then Some (\<lambda>t. Inr (t * (3 - t)))
          else if name = ''vz'' then Some (\<lambda>t. Inr (3 - 2 * t))
          else if name \<in> set [''x'', ''y'', ''vx'', ''vy'', ''mach_number'',
                 ''dynamic_pressure'', ''angle_of_attack''] then Some (\<lambda>t. Inr 0)
          else None),
     motor_burn_time_of = (\<lambda>motor. Inr 0.5),
     static_margin = (\<lambda>rocket t. Inr 2.2),
     center_of_mass = (\<lambda>rocket t. Inr 0.3)\<rparr>"

text \<open>A random source whose every draw is its \<open>loc\<close>.\<close>

definition flat_normal :: "nat \<Rightarrow> real \<Rightarrow> real \<Rightarrow> real" where
  "flat_normal n loc scale = loc"

text \<open>
  A Monte Carlo request over the weak-motor request, with the default deviations, and a
  motor with a burn time of a tenth of a second and no thrust curve.
\<close>

definition demo_montecarlo :: "int \<Rightarrow> MonteCarloRequest" where
  "demo_montecarlo n =
    \<lparr>mcreq_base_simulation = demo_request, mcreq_num_simulations = n,
     mcreq_wind_speed_std = 2, mcreq_wind_direction_std = 15, mcreq_mass_std = 0.01,
     mcreq_thrust_std = 0.05\<rparr>"

definition short_burn_motor :: MotorConfig where
  "short_burn_motor = default_MotorConfig\<lparr>motor_burn_time := 0.1\<rparr>"


text \<open>
  A range of requests for the fallback: a sampling rate from 1 to 1000 Hz, a thrust up to
  a million newtons, a burn time up to 1000 seconds, masses up to a million kilograms
  with at least a gram of rocket and motor casing, and at most a million samples up to
  the horizon of 2.5 times the apogee time. In this range the quantities the fallback
  squares stay far below \<open>max_float\<close>.
\<close>

definition moderate_request :: "SimulationRequest \<Rightarrow> bool" where
  "moderate_request request =
    (let motor = rocket_motor (req_rocket request);
         rocket_mass = rocket_mass (req_rocket request);
         propellant_mass = motor_propellant_mass motor;
         dry_mass = motor_dry_mass motor;
         thrust = motor_avg_thrust motor;
         burn_time = motor_burn_time motor;
         rate = req_output_sampling_rate request;
         apogee_time =
           burn_time +
           (thrust / (rocket_mass + propellant_mass + dry_mass - propellant_mass / 2) - 9.81)
             * burn_time / 9.81
     in 1 \<le> rate \<and> rate \<le> 1000 \<and>
        0 \<le> thrust \<and> thrust \<le> 10 ^ 6 \<and>
        0 \<le> burn_time \<and> burn_time \<le> 1000 \<and>
        0 \<le> rocket_mass \<and> rocket_mass \<le> 10 ^ 6 \<and>
        0 \<le> dry_mass \<and> dry_mass \<le> 10 ^ 6 \<and>
        0 \<le> propellant_mass \<and> propellant_mass \<le> 10 ^ 6 \<and>
        1 / 1000 \<le> rocket_mass + dry_mass \<and>
        apogee_time * 2.5 * rate \<le> 10 ^ 6)"

section \<open>Properties\<close>

subsection \<open>Stability classification\<close>

lemma calculate_stability_Inr:
  assumes "calculate_stability rocket = Inr r"
  shows "stab_stable r = (stab_stability_margin r > 1)"
    and "stab_recommendation r =
          (if stab_stability_margin r > 1.5 then ''Stable''
           else if stab_stability_margin r > 1.0 then ''Marginally stable''
           else ''Unstable - add weight to nose or move fins aft'')"
  using assms unfolding calculate_stability_def bind_exn_def Let_def
  by (auto split: sum.splits option.splits)

lemma calculate_stability_margin_1_5:
  "calculate_stability rocket_margin_1_5 =
    Inr \<lparr>stab_cp_position = 2233 / 15000, stab_cg_position = 0,
         stab_stability_margin = 1.5, stab_stable = True,
         stab_recommendation = ''Marginally stable''\<rparr>"
  by (simp add: calculate_stability_def rocket_margin_1_5_def default_RocketConfig_def
      bind_exn_def py_div_def Let_def)

lemma calculate_stability_margin_1_0:
  "calculate_stability rocket_margin_1_0 =
    Inr \<lparr>stab_cp_position = 2233 / 15000, stab_cg_position = 0,
         stab_stability_margin = 1, stab_stable = False,
         stab_recommendation = ''Unstable - add weight to nose or move fins aft''\<rparr>"
  by (simp add: calculate_stability_def rocket_margin_1_0_def default_RocketConfig_def
      bind_exn_def py_div_def Let_def)

lemma calculate_stability_between:
  "calculate_stability rocket_between =
    Inr \<lparr>stab_cp_position = 29677 / 241000, stab_cg_position = 0.05,
         stab_stability_margin = 17627 / 12050, stab_stable = True,
         stab_recommendation = ''Marginally stable''\<rparr>"
  by (simp add: calculate_stability_def rocket_between_def default_RocketConfig_def
      default_FinConfig_def bind_exn_def py_div_def py_square_def max_float_def Let_def
      power2_eq_square)

text \<open>
  C5. Whenever the stability endpoint answers, its recommendation follows the margin it
  reports: above 1.5 it is "Stable"; above 1.0 and up to 1.5, 1.5 included, it is
  "Marginally stable"; up to 1.0, 1.0 included, it is the "Unstable" advice.
\<close>

theorem stability_classification:
  assumes "calculate_stability rocket = Inr r"
  shows "(stab_stability_margin r > 1.5 \<longrightarrow> stab_recommendation r = ''Stable'') \<and>
         (1.0 < stab_stability_margin r \<and> stab_stability_margin r \<le> 1.5 \<longrightarrow>
            stab_recommendation r = ''Marginally stable'') \<and>
         (stab_stability_margin r \<le> 1.0 \<longrightarrow>
            stab_recommendation r = ''Unstable - add weight to nose or move fins aft'')"
  using calculate_stability_Inr(2) [OF assms] by simp

theorem stability_classification_witness:
  "(\<exists>r. calculate_stability rocket_margin_1_5 = Inr r \<and> stab_stability_margin r = 1.5 \<and>
        stab_recommendation r = ''Marginally stable'') \<and>
   (\<exists>r. calculate_stability rocket_margin_1_0 = Inr r \<and> stab_stability_margin r = 1.0 \<and>
        stab_recommendation r = ''Unstable - add weight to nose or move fins aft'')"
  using stability_classification [OF calculate_stability_margin_1_5]
    stability_classification [OF calculate_stability_margin_1_0]
  by (simp add: calculate_stability_margin_1_5 calculate_stability_margin_1_0)

text \<open>
  C9. Whenever the stability endpoint answers, its field \<open>stable\<close> is true exactly when
  the margin is above 1.0; so for a margin above 1.0 and up to 1.5 the answer has
  \<open>stable\<close> true together with the recommendation "Marginally stable".
\<close>

theorem stable_flag_threshold:
  assumes "calculate_stability rocket = Inr r"
  shows "(stab_stable r \<longleftrightarrow> stab_stability_margin r > 1.0) \<and>
         (1.0 < stab_stability_margin r \<and> stab_stability_margin r \<le> 1.5 \<longrightarrow>
            stab_stable r \<and> stab_recommendation r = ''Marginally stable'')"
  using calculate_stability_Inr [OF assms] by simp

theorem stable_flag_threshold_witness:
  "\<exists>r. calculate_stability rocket_between = Inr r \<and>
       1.0 < stab_stability_margin r \<and> stab_stability_margin r \<le> 1.5 \<and>
       stab_stable r \<and> stab_recommendation r = ''Marginally stable''"
  using stable_flag_threshold [OF calculate_stability_between]
  by (simp add: calculate_stability_between)

subsection \<open>The fallback path\<close>

text \<open>A sample carries the time of its pass, so the samples are in the order of the passes.\<close>

lemma mock_step_time:
  assumes "mock_step mass thrust burn_time propellant_mass dt t trajectory = Inr (Some p)"
  shows "pt_time p = t"
  using assms unfolding mock_step_def bind_exn_def Let_def
  by (auto split: sum.splits if_splits prod.splits)

lemma mock_loop_sorted_aux:
  assumes "mock_loop mass thrust burn_time propellant_mass dt apogee_time t trajectory = Some res"
  shows "0 < dt \<longrightarrow> sorted_wrt (<) (map pt_time trajectory) \<longrightarrow>
         (\<forall>p \<in> set trajectory. pt_time p < t) \<longrightarrow>
         (\<forall>t' trajectory'. res = Inr (t', trajectory') \<longrightarrow>
            sorted_wrt (<) (map pt_time trajectory'))"
  using assms
proof (induction rule: mock_loop.raw_induct [rotated 1, consumes 1])
  case (1 loop mass thrust burn_time propellant_mass dt apogee_time t trajectory res)
  show ?case
  proof (intro impI allI)
    fix t' trajectory'
    assume dt: "0 < dt" and srt: "sorted_wrt (<) (map pt_time trajectory)"
      and below: "\<forall>p \<in> set trajectory. pt_time p < t"
      and res: "res = Inr (t', trajectory')"
    show "sorted_wrt (<) (map pt_time trajectory')"
    proof (cases "t < apogee_time * 2.5")
      case False
      with 1(2) res show ?thesis using srt by simp
    next
      case True
      show ?thesis
      proof (cases "mock_step mass thrust burn_time propellant_mass dt t trajectory")
        case (Inl e)
        with True 1(2) res show ?thesis by simp
      next
        case (Inr outcome)
        show ?thesis
        proof (cases outcome)
          case None
          with Inr True 1(2) res show ?thesis using srt by simp
        next
          case (Some p)
          have pt: "pt_time p = t" using Inr Some by (simp add: mock_step_time)
          have call: "loop mass thrust burn_time propellant_mass dt apogee_time (t + dt)
                        (trajectory @ [p]) = Some res"
            using Inr Some True 1(2) by simp
          have srt': "sorted_wrt (<) (map pt_time (trajectory @ [p]))"
            using srt below pt by (simp add: sorted_wrt_append)
          have below': "\<forall>q \<in> set (trajectory @ [p]). pt_time q < t + dt"
            using below pt dt by auto
          from 1(1) [OF call] dt srt' below' res show ?thesis by blast
        qed
      qed
    qed
  qed
qed

lemma mock_loop_sorted:
  assumes "mock_loop mass thrust burn_time propellant_mass dt apogee_time 0 [] = Some (Inr (t', trajectory'))"
    and "0 < dt"
  shows "sorted_wrt (<) (map pt_time trajectory')"
  using mock_loop_sorted_aux [OF assms(1)] assms(2) by simp

lemma fraction_used:
  fixes p t b :: real
  assumes "0 \<le> p" "0 \<le> t" "t < b"
  shows "p * t / b \<le> p"
proof -
  have "0 < b" using assms by linarith
  have "p * t \<le> p * b" using assms by (intro mult_left_mono) auto
  then show ?thesis using \<open>0 < b\<close> by (simp add: divide_le_eq)
qed

text \<open>
  When does the loop return? With a positive step, a propellant mass that is not
  negative, a positive mass left without propellant and a thrust that is not negative,
  the divisors are positive, the magnitude of the velocity at time \<open>t\<close> is at most
  \<open>(thrust / m0 + 9.81) t\<close>, and the loop ends after finitely many passes; the squares
  do not overflow when that bound at the horizon is below \<open>max_float\<close>.
\<close>

lemma bind_exn_Inr: "bind_exn (Inr v) f = f v"
  by (simp add: bind_exn_def)

lemma max_float_bound: "10 ^ 32 \<le> max_float"
  by (simp add: max_float_def)

lemma py_square_Inr: "x\<^sup>2 \<le> max_float \<Longrightarrow> py_square x = Inr (x\<^sup>2)"
  by (simp add: py_square_def)

lemma mock_step_returns:
  assumes t: "0 \<le> t"
    and start: "t = 0 \<or> trajectory \<noteq> []"
    and pm: "0 \<le> propellant_mass"
    and m0: "0 < m0" "m0 \<le> mass - propellant_mass"
    and thrust: "0 \<le> thrust"
    and dt: "0 < dt"
    and prev: "trajectory \<noteq> [] \<longrightarrow> \<bar>pt_vz (last trajectory)\<bar> \<le> (thrust / m0 + 9.81) * t"
    and room: "((thrust / m0 + 9.81) * (t + dt))\<^sup>2 \<le> max_float"
  shows "\<exists>outcome. mock_step mass thrust burn_time propellant_mass dt t trajectory = Inr outcome \<and>
           (\<forall>p. outcome = Some p \<longrightarrow> \<bar>pt_vz p\<bar> \<le> (thrust / m0 + 9.81) * (t + dt))"
proof -
  define A where "A = thrust / m0 + 9.81"
  have A0: "0 \<le> thrust / m0" using thrust m0(1) by simp
  then have Apos: "0 < A" unfolding A_def by simp
  have acc: "\<exists>a. (if t < burn_time then
             bind_exn (py_div (propellant_mass * t) burn_time)
               (\<lambda>used. bind_exn (py_div thrust (mass - used)) (\<lambda>q. Inr (q - 9.81)))
           else Inr (- 9.81)) = Inr a \<and> \<bar>a\<bar> \<le> A"
  proof (cases "t < burn_time")
    case True
    then have b: "burn_time \<noteq> 0" using t by auto
    have "propellant_mass * t / burn_time \<le> propellant_mass"
      using fraction_used [OF pm t True] .
    then have d: "m0 \<le> mass - propellant_mass * t / burn_time" using m0(2) by simp
    then have dpos: "0 < mass - propellant_mass * t / burn_time" using m0(1) by simp
    have "thrust / (mass - propellant_mass * t / burn_time) \<le> thrust / m0"
      using d m0(1) thrust by (intro divide_left_mono) (auto intro: mult_pos_pos dpos)
    moreover have "0 \<le> thrust / (mass - propellant_mass * t / burn_time)"
      using thrust dpos by simp
    ultimately have "\<bar>thrust / (mass - propellant_mass * t / burn_time) - 9.81\<bar> \<le> A"
      unfolding A_def by (simp add: abs_le_iff)
    then show ?thesis using True b dpos by (simp add: bind_exn_def py_div_def)
  next
    case False
    then show ?thesis using A0 by (simp add: A_def)
  qed
  then obtain a where a: "(if t < burn_time then
             bind_exn (py_div (propellant_mass * t) burn_time)
               (\<lambda>used. bind_exn (py_div thrust (mass - used)) (\<lambda>q. Inr (q - 9.81)))
           else Inr (- 9.81)) = Inr a" and abound: "\<bar>a\<bar> \<le> A"
    by blast
  have vz: "\<exists>v z. (if t = 0 then Inr (0, 0)
              else if trajectory = [] then Inl IndexError
              else
                (let prev = last trajectory;
                     v = pt_vz prev + a * dt;
                     z = pt_z prev + v * dt
                 in Inr (v, z))) = Inr (v, z) \<and> \<bar>v\<bar> \<le> A * (t + dt)"
  proof (cases "t = 0")
    case True
    then show ?thesis using Apos dt by simp
  next
    case False
    then have ne: "trajectory \<noteq> []" using start by simp
    then have pv: "\<bar>pt_vz (last trajectory)\<bar> \<le> A * t" using prev unfolding A_def by simp
    have "\<bar>a * dt\<bar> \<le> A * dt" using abound dt by (simp add: abs_mult)
    then have "\<bar>pt_vz (last trajectory) + a * dt\<bar> \<le> A * (t + dt)"
      using pv by (simp add: algebra_simps)
    then show ?thesis using False ne by (simp add: Let_def)
  qed
  then obtain v z where vz: "(if t = 0 then Inr (0, 0)
              else if trajectory = [] then Inl IndexError
              else
                (let prev = last trajectory;
                     v = pt_vz prev + a * dt;
                     z = pt_z prev + v * dt
                 in Inr (v, z))) = Inr (v, z)" and vbound: "\<bar>v\<bar> \<le> A * (t + dt)"
    by blast
  have "0 \<le> A * (t + dt)" using Apos t dt by simp
  then have "v\<^sup>2 \<le> (A * (t + dt))\<^sup>2"
    using vbound by (simp add: abs_le_square_iff [symmetric])
  then have "v\<^sup>2 \<le> max_float" using room unfolding A_def by simp
  then have sq: "py_square v = Inr (v\<^sup>2)" by (rule py_square_Inr)
  have "mock_step mass thrust burn_time propellant_mass dt t trajectory =
      (if z < 0 \<and> t > burn_time then Inr None
       else Inr (Some
         \<lparr>pt_time = t, pt_x = 0, pt_y = 0, pt_z = max 0 z,
          pt_vx = 0, pt_vy = 0, pt_vz = v,
          pt_ax = 0, pt_ay = 0, pt_az = a,
          pt_pitch = 90, pt_yaw = 0, pt_roll = 0,
          pt_mach = v / 340, pt_dynamic_pressure = 0.5 * 1.225 * v\<^sup>2,
          pt_angle_of_attack = 0\<rparr>))"
    unfolding mock_step_def
    by (simp only: Let_def a vz [unfolded Let_def] sq bind_exn_Inr prod.case)
  then show ?thesis using vbound by (simp add: A_def)
qed

lemma mock_loop_returns_aux:
  assumes dt: "0 < dt"
    and pm: "0 \<le> propellant_mass"
    and m0: "0 < m0" "m0 \<le> mass - propellant_mass"
    and thrust: "0 \<le> thrust"
    and room: "((thrust / m0 + 9.81) * (apogee_time * 2.5 + dt))\<^sup>2 \<le> max_float"
  shows "apogee_time * 2.5 - t \<le> real n * dt \<Longrightarrow> 0 \<le> t \<Longrightarrow> t = 0 \<or> trajectory \<noteq> [] \<Longrightarrow>
         trajectory \<noteq> [] \<longrightarrow> \<bar>pt_vz (last trajectory)\<bar> \<le> (thrust / m0 + 9.81) * t \<Longrightarrow>
         \<exists>t' trajectory'. mock_loop mass thrust burn_time propellant_mass dt apogee_time t trajectory
            = Some (Inr (t', trajectory'))"
proof (induction n arbitrary: t trajectory)
  case 0
  then have "\<not> t < apogee_time * 2.5" by simp
  then show ?case by (subst mock_loop.simps) simp
next
  case (Suc n)
  show ?case
  proof (cases "t < apogee_time * 2.5")
    case False
    then show ?thesis by (subst mock_loop.simps) simp
  next
    case True
    have A0: "0 \<le> thrust / m0 + 9.81" using thrust m0(1) by simp
    have "0 \<le> (thrust / m0 + 9.81) * (t + dt)" using A0 Suc.prems(2) dt by simp
    moreover have "(thrust / m0 + 9.81) * (t + dt) \<le> (thrust / m0 + 9.81) * (apogee_time * 2.5 + dt)"
      using A0 True by (intro mult_left_mono) auto
    ultimately have "((thrust / m0 + 9.81) * (t + dt))\<^sup>2
        \<le> ((thrust / m0 + 9.81) * (apogee_time * 2.5 + dt))\<^sup>2"
      by (intro power_mono) auto
    then have here: "((thrust / m0 + 9.81) * (t + dt))\<^sup>2 \<le> max_float" using room by simp
    obtain outcome where o: "mock_step mass thrust burn_time propellant_mass dt t trajectory = Inr outcome"
      and ob: "\<forall>p. outcome = Some p \<longrightarrow> \<bar>pt_vz p\<bar> \<le> (thrust / m0 + 9.81) * (t + dt)"
      using mock_step_returns [OF Suc.prems(2,3) pm m0 thrust dt Suc.prems(4) here] by blast
    show ?thesis
    proof (cases outcome)
      case None
      with o True show ?thesis by (subst mock_loop.simps) simp
    next
      case (Some p)
      have "apogee_time * 2.5 - (t + dt) \<le> real n * dt"
        using Suc.prems(1) by (simp add: algebra_simps)
      moreover have "0 \<le> t + dt" using Suc.prems(2) dt by simp
      moreover have "(trajectory @ [p]) \<noteq> [] \<longrightarrow>
          \<bar>pt_vz (last (trajectory @ [p]))\<bar> \<le> (thrust / m0 + 9.81) * (t + dt)"
        using ob Some by simp
      ultimately obtain t' trajectory' where
        "mock_loop mass thrust burn_time propellant_mass dt apogee_time (t + dt) (trajectory @ [p])
           = Some (Inr (t', trajectory'))"
        using Suc.IH [of "t + dt" "trajectory @ [p]"] by auto
      with o Some True show ?thesis by (subst mock_loop.simps) simp
    qed
  qed
qed

lemma mock_loop_returns:
  assumes "0 < dt" "0 \<le> propellant_mass" "0 < m0" "m0 \<le> mass - propellant_mass" "0 \<le> thrust"
    and "((thrust / m0 + 9.81) * (apogee_time * 2.5 + dt))\<^sup>2 \<le> max_float"
  shows "\<exists>t' trajectory'. mock_loop mass thrust burn_time propellant_mass dt apogee_time 0 []
            = Some (Inr (t', trajectory'))"
proof -
  obtain n :: nat where "apogee_time * 2.5 - 0 < real n * dt"
    using reals_Archimedean3 [OF assms(1)] by blast
  then have "apogee_time * 2.5 - 0 \<le> real n * dt" by simp
  from mock_loop_returns_aux [OF assms this] show ?thesis by simp
qed

text \<open>The unfoldings that evaluate a concrete request.\<close>

lemmas request_defs = demo_request_def invalid_request_def default_SimulationRequest_def
  default_RocketConfig_def default_MotorConfig_def default_FinConfig_def
  default_ParachuteConfig_def default_EnvironmentConfig_def default_FlightConfig_def

lemma create_mock_result_demo:
  "create_mock_result demo_request =
    Some (Inr
      \<lparr>res_success = True,
       res_message = ''Mock simulation (RocketPy not installed)'',
       res_apogee = 185150 / 149221, res_apogee_time = 20000 / 12099,
       res_max_velocity = 11109 / 7400, res_max_velocity_time = 3 / 2,
       res_max_acceleration = 3703 / 3700,
       res_max_mach = 11109 / 2516000, res_flight_time = 2,
       res_landing_velocity = 4779 / 4100, res_landing_position = [0, 0],
       res_out_of_rail_velocity = 20, res_out_of_rail_stability = 2,
       res_trajectory =
         [\<lparr>pt_time = 0, pt_x = 0, pt_y = 0, pt_z = 0, pt_vx = 0,
           pt_vy = 0, pt_vz = 0, pt_ax = 0, pt_ay = 0,
           pt_az = 1551 / 2900, pt_pitch = 90, pt_yaw = 0, pt_roll = 0,
           pt_mach = 0, pt_dynamic_pressure = 0,
           pt_angle_of_attack = 0\<rparr>,
          \<lparr>pt_time = 1, pt_x = 0, pt_y = 0, pt_z = 4779 / 4100,
           pt_vx = 0, pt_vy = 0, pt_vz = 4779 / 4100, pt_ax = 0,
           pt_ay = 0, pt_az = 4779 / 4100, pt_pitch = 90, pt_yaw = 0,
           pt_roll = 0, pt_mach = 4779 / 1394000,
           pt_dynamic_pressure = 1119103209 / 1344800000,
           pt_angle_of_attack = 0\<rparr>],
       res_events =
         [\<lparr>ev_name = ''liftoff'', ev_time = 0, ev_altitude = Some 0,
           ev_velocity = None\<rparr>,
          \<lparr>ev_name = ''burnout'', ev_time = 3 / 2, ev_altitude = None,
           ev_velocity = None\<rparr>,
          \<lparr>ev_name = ''apogee'', ev_time = 20000 / 12099,
           ev_altitude = Some (185150 / 149221), ev_velocity = None\<rparr>,
          \<lparr>ev_name = ''landing'', ev_time = 2, ev_altitude = None,
           ev_velocity = Some (4779 / 4100)\<rparr>],
       res_stability_margin_initial = 2,
       res_stability_margin_burnout = 5 / 2, res_cp_position = 1 / 4,
       res_cg_position = 1 / 5\<rparr>)"
  by (simp add: create_mock_result_def mock_loop.simps mock_step_def bind_exn_def py_div_def
      py_square_def max_float_def request_defs power2_eq_square Let_def)

lemma create_mock_result_closed_form:
  assumes "create_mock_result request = Some (Inr r)"
  shows "(let g = 9.81;
              motor = rocket_motor (req_rocket request);
              liftoff_mass = rocket_mass (req_rocket request) + motor_propellant_mass motor
                             + motor_dry_mass motor;
              a = motor_avg_thrust motor / (liftoff_mass - motor_propellant_mass motor / 2) - g;
              v = a * motor_burn_time motor;
              h = a * (motor_burn_time motor)\<^sup>2 / 2;
              coast_time = v / g;
              coast_altitude = v * coast_time - g * coast_time\<^sup>2 / 2
          in res_apogee r = h + coast_altitude \<and>
             res_apogee_time r = motor_burn_time motor + coast_time)"
    and "res_success r \<and> res_message r = ''Mock simulation (RocketPy not installed)''"
  using assms unfolding create_mock_result_def py_div_def py_square_def Let_def
  by (auto split: if_splits option.splits sum.splits)

lemma square_le_of_abs:
  fixes x c :: real
  assumes "\<bar>x\<bar> \<le> c"
  shows "x\<^sup>2 \<le> c\<^sup>2"
proof -
  have "\<bar>x\<bar> \<le> \<bar>c\<bar>" using assms by linarith
  then show ?thesis by (simp only: abs_le_square_iff)
qed

lemma moderate_request_demo: "moderate_request demo_request"
  by (simp add: moderate_request_def request_defs Let_def)

text \<open>
  On a request of the moderate range no division is by zero, no square overflows and the
  loop ends, so the fallback returns a result.
\<close>

lemma create_mock_result_returns:
  assumes "moderate_request request"
  shows "\<exists>r. create_mock_result request = Some (Inr r)"
proof -
  define motor where "motor = rocket_motor (req_rocket request)"
  define rm where "rm = rocket_mass (req_rocket request)"
  define pm where "pm = motor_propellant_mass motor"
  define dm where "dm = motor_dry_mass motor"
  define thrust where "thrust = motor_avg_thrust motor"
  define b where "b = motor_burn_time motor"
  define rate where "rate = req_output_sampling_rate request"
  define q where "q = thrust / (rm + pm + dm - pm / 2)"
  define coast where "coast = (q - 9.81) * b / 9.81"
  define dt where "dt = 1 / rate"
  have range: "1 \<le> rate" "rate \<le> 1000" "0 \<le> thrust" "thrust \<le> 10 ^ 6" "0 \<le> b" "b \<le> 1000"
    "0 \<le> rm" "0 \<le> dm" "0 \<le> pm" "1 / 1000 \<le> rm + dm"
    "(b + coast) * 2.5 * rate \<le> 10 ^ 6"
    using assms
    unfolding moderate_request_def Let_def motor_def rm_def pm_def dm_def thrust_def b_def
      rate_def q_def coast_def
    by simp_all
  have avg: "1 / 1000 \<le> rm + pm + dm - pm / 2" using range by simp
  then have avg0: "rm + pm + dm - pm / 2 \<noteq> 0" by simp
  have q0: "0 \<le> q" unfolding q_def using range(3) avg by simp
  have "thrust / (rm + pm + dm - pm / 2) \<le> thrust / (1 / 1000)"
    using avg range(3) by (intro divide_left_mono) auto
  then have q1: "q \<le> 10 ^ 9" unfolding q_def using range(4) by simp
  have bsq: "b\<^sup>2 \<le> max_float"
  proof -
    have "b\<^sup>2 \<le> 1000\<^sup>2" using range(5,6) by (intro power_mono) auto
    moreover have "(1000 :: real)\<^sup>2 \<le> 10 ^ 32" by simp
    ultimately show ?thesis using max_float_bound by linarith
  qed
  have "\<bar>q - 9.81\<bar> \<le> 10 ^ 9" using q0 q1 by (simp add: abs_le_iff)
  then have "\<bar>q - 9.81\<bar> * \<bar>b\<bar> \<le> 10 ^ 9 * 1000"
    using range(5,6) by (intro mult_mono) auto
  moreover have "\<bar>coast\<bar> = \<bar>q - 9.81\<bar> * \<bar>b\<bar> / 9.81"
    unfolding coast_def by (simp add: abs_mult)
  ultimately have "\<bar>coast\<bar> \<le> 10 ^ 12"
    by simp
  then have "coast\<^sup>2 \<le> (10 ^ 12)\<^sup>2"
    by (rule square_le_of_abs)
  moreover have "((10 :: real) ^ 12)\<^sup>2 \<le> 10 ^ 32" by simp
  ultimately have csq: "coast\<^sup>2 \<le> max_float" using max_float_bound by linarith
  have rate0: "rate \<noteq> 0" using range(1) by simp
  have dt0: "0 < dt" unfolding dt_def using range(1) by simp
  have dt1: "dt \<le> 1" unfolding dt_def using range(1) by simp
  have m0: "0 < rm + dm" "rm + dm \<le> rm + pm + dm - pm" using range(10) by simp_all
  have coast0: "0 \<le> b + coast"
  proof -
    have eq: "b + coast = q * b / 9.81" unfolding coast_def by (simp add: field_simps)
    have nonneg: "0 \<le> q * b / 9.81" using q0 range(5) by simp
    show ?thesis unfolding eq by (rule nonneg)
  qed
  have horizon: "(b + coast) * 2.5 \<le> 10 ^ 6"
  proof -
    have "(b + coast) * 2.5 * 1 \<le> (b + coast) * 2.5 * rate"
      using coast0 range(1) by (intro mult_left_mono) auto
    then show ?thesis using range(11) by simp
  qed
  have "thrust / (rm + dm) \<le> thrust / (1 / 1000)"
    using range(3,10) by (intro divide_left_mono) auto
  then have A1: "thrust / (rm + dm) + 9.81 \<le> 10 ^ 9 + 10" using range(4) by simp
  have A0: "0 \<le> thrust / (rm + dm) + 9.81" using range(3) m0(1) by simp
  have hd: "(b + coast) * 2.5 + dt \<le> 10 ^ 6 + 1" using horizon dt1 by linarith
  have hd0: "0 \<le> (b + coast) * 2.5 + dt" using coast0 dt0 by simp
  have "(thrust / (rm + dm) + 9.81) * ((b + coast) * 2.5 + dt) \<le> (10 ^ 9 + 10) * (10 ^ 6 + 1)"
    by (rule mult_mono [OF A1 hd _ hd0]) simp
  moreover have "0 \<le> (thrust / (rm + dm) + 9.81) * ((b + coast) * 2.5 + dt)"
    using A0 coast0 dt0 by simp
  ultimately have "((thrust / (rm + dm) + 9.81) * ((b + coast) * 2.5 + dt))\<^sup>2
      \<le> ((10 ^ 9 + 10) * (10 ^ 6 + 1))\<^sup>2"
    by (intro power_mono) auto
  moreover have "((10 ^ 9 + 10) * (10 ^ 6 + 1) :: real)\<^sup>2 \<le> max_float"
    by (simp add: max_float_def)
  ultimately have room: "((thrust / (rm + dm) + 9.81) * ((b + coast) * 2.5 + dt))\<^sup>2 \<le> max_float"
    by simp
  obtain t' trajectory' where loop:
    "mock_loop (rm + pm + dm) thrust b pm dt (b + coast) 0 [] = Some (Inr (t', trajectory'))"
    using mock_loop_returns [OF dt0 range(9) m0 range(3) room] by blast
  have "create_mock_result request =
    (case mock_loop (rm + pm + dm) thrust b pm dt (b + coast) 0 [] of
       None \<Rightarrow> None
     | Some (Inl e) \<Rightarrow> Some (Inl e)
     | Some (Inr (t, trajectory)) \<Rightarrow>
         Some (Inr
           \<lparr>res_success = True,
            res_message = ''Mock simulation (RocketPy not installed)'',
            res_apogee = 0.5 * (q - 9.81) * b\<^sup>2 + ((q - 9.81) * b * coast - 0.5 * 9.81 * coast\<^sup>2),
            res_apogee_time = b + coast,
            res_max_velocity = (q - 9.81) * b,
            res_max_velocity_time = b,
            res_max_acceleration = q - 9.81,
            res_max_mach = (q - 9.81) * b / 340,
            res_flight_time = t,
            res_landing_velocity = (if trajectory \<noteq> [] then \<bar>pt_vz (last trajectory)\<bar> else 0),
            res_landing_position = [0, 0],
            res_out_of_rail_velocity = 20,
            res_out_of_rail_stability = 2.0,
            res_trajectory = trajectory,
            res_events =
              [\<lparr>ev_name = ''liftoff'', ev_time = 0, ev_altitude = Some 0, ev_velocity = None\<rparr>,
               \<lparr>ev_name = ''burnout'', ev_time = b, ev_altitude = None, ev_velocity = None\<rparr>,
               \<lparr>ev_name = ''apogee'', ev_time = b + coast,
                ev_altitude =
                  Some (0.5 * (q - 9.81) * b\<^sup>2 + ((q - 9.81) * b * coast - 0.5 * 9.81 * coast\<^sup>2)),
                ev_velocity = None\<rparr>,
               \<lparr>ev_name = ''landing'', ev_time = t, ev_altitude = None,
                ev_velocity = Some (if trajectory \<noteq> [] then pt_vz (last trajectory) else 0)\<rparr>],
            res_stability_margin_initial = 2.0,
            res_stability_margin_burnout = 2.5,
            res_cp_position = 0.25,
            res_cg_position = 0.2\<rparr>))"
    unfolding create_mock_result_def Let_def
      motor_def [symmetric] rm_def [symmetric] pm_def [symmetric] dm_def [symmetric]
      thrust_def [symmetric] b_def [symmetric] rate_def [symmetric]
    unfolding py_div_def q_def [symmetric]
    apply (simp only: avg0 rate0 if_False sum.case py_square_Inr [OF bsq]
        coast_def [symmetric] py_square_Inr [OF csq])
    apply (simp add: dt_def)
    done
  then show ?thesis by (simp add: loop)
qed

text \<open>
  C6. The fallback reports the closed-form apogee. With g = 9.81, liftoff mass = rocket
  mass + propellant mass + motor dry mass, a = thrust / (liftoff mass - propellant mass
  / 2) - g, v = a * burn time, h = a * (burn time squared) / 2, coast time = v / g and
  coast altitude = v * coast time - g * (coast time squared) / 2: on every request of
  the moderate range the fallback returns a result, and every result it returns, on any
  request, has apogee h + coast altitude and apogee time burn time + coast time.
\<close>

theorem fallback_apogee_closed_form:
  "(moderate_request request \<longrightarrow> (\<exists>r. create_mock_result request = Some (Inr r))) \<and>
   (\<forall>r. create_mock_result request = Some (Inr r) \<longrightarrow>
      (let g = 9.81;
           motor = rocket_motor (req_rocket request);
           liftoff_mass = rocket_mass (req_rocket request) + motor_propellant_mass motor
                          + motor_dry_mass motor;
           a = motor_avg_thrust motor / (liftoff_mass - motor_propellant_mass motor / 2) - g;
           v = a * motor_burn_time motor;
           h = a * (motor_burn_time motor)\<^sup>2 / 2;
           coast_time = v / g;
           coast_altitude = v * coast_time - g * coast_time\<^sup>2 / 2
       in res_apogee r = h + coast_altitude \<and>
          res_apogee_time r = motor_burn_time motor + coast_time))"
proof (intro conjI impI allI)
  assume "moderate_request request"
  then show "\<exists>r. create_mock_result request = Some (Inr r)"
    by (rule create_mock_result_returns)
next
  fix r
  assume "create_mock_result request = Some (Inr r)"
  then show "(let g = 9.81;
           motor = rocket_motor (req_rocket request);
           liftoff_mass = rocket_mass (req_rocket request) + motor_propellant_mass motor
                          + motor_dry_mass motor;
           a = motor_avg_thrust motor / (liftoff_mass - motor_propellant_mass motor / 2) - g;
           v = a * motor_burn_time motor;
           h = a * (motor_burn_time motor)\<^sup>2 / 2;
           coast_time = v / g;
           coast_altitude = v * coast_time - g * coast_time\<^sup>2 / 2
       in res_apogee r = h + coast_altitude \<and>
          res_apogee_time r = motor_burn_time motor + coast_time)"
    by (rule create_mock_result_closed_form)
qed

theorem fallback_apogee_closed_form_witness:
  "moderate_request demo_request \<and>
   (\<exists>r. create_mock_result demo_request = Some (Inr r) \<and>
       res_apogee r = 185150 / 149221 \<and> res_apogee_time r = 20000 / 12099 \<and>
       res_apogee r =
         (6 / (0.58 - 0.05 / 2) - 9.81) * 1.5\<^sup>2 / 2 +
         ((6 / (0.58 - 0.05 / 2) - 9.81) * 1.5 * ((6 / (0.58 - 0.05 / 2) - 9.81) * 1.5 / 9.81) -
          9.81 * ((6 / (0.58 - 0.05 / 2) - 9.81) * 1.5 / 9.81)\<^sup>2 / 2) \<and>
       res_apogee_time r = 1.5 + (6 / (0.58 - 0.05 / 2) - 9.81) * 1.5 / 9.81)"
  using fallback_apogee_closed_form [of demo_request] moderate_request_demo
  by (simp add: create_mock_result_demo power2_eq_square)


text \<open>
  It also raises on a large finite input: with an average thrust of 1e200 the coast time
  is about 2.9e200, and \<^verbatim>\<open>coast_time**2\<close> raises \<^verbatim>\<open>OverflowError\<close>; so does
  \<^verbatim>\<open>burn_time**2\<close> with a burn time of 1e155.
\<close>

lemma fallback_raises_on_large_thrust:
  "create_mock_result
     (default_SimulationRequest\<lparr>req_rocket := default_RocketConfig
        \<lparr>rocket_motor := default_MotorConfig\<lparr>motor_avg_thrust := 10 ^ 200\<rparr>\<rparr>\<rparr>)
     = Some (Inl OverflowError)"
  by (simp add: create_mock_result_def py_div_def py_square_def max_float_def request_defs
      power2_eq_square Let_def)

lemma fallback_raises_on_long_burn:
  "create_mock_result
     (default_SimulationRequest\<lparr>req_rocket := default_RocketConfig
        \<lparr>rocket_motor := default_MotorConfig\<lparr>motor_burn_time := 10 ^ 155\<rparr>\<rparr>\<rparr>)
     = Some (Inl OverflowError)"
  by (simp add: create_mock_result_def py_div_def py_square_def max_float_def request_defs
      power2_eq_square Let_def)



subsection \<open>The high-fidelity path\<close>

lemma bind_exn_Inr_iff:
  "bind_exn m f = Inr r \<longleftrightarrow> (\<exists>v. m = Inr v \<and> f v = Inr r)"
  by (cases m) (simp_all add: bind_exn_def)

lemma bind_exn_Inl:
  "m = Inl e \<Longrightarrow> bind_exn m f = Inl e"
  by (simp add: bind_exn_def)

lemma trajectory_point_time:
  assumes "trajectory_point rp flight t = Inr p"
  shows "pt_time p = t"
  using assms unfolding trajectory_point_def
  by (auto simp: bind_exn_Inr_iff)

lemma sample_trajectory_prefix:
  "\<exists>n. map pt_time (sample_trajectory rp flight ts) = take n ts"
proof (induction ts)
  case Nil
  then show ?case by simp
next
  case (Cons t ts)
  then obtain n where n: "map pt_time (sample_trajectory rp flight ts) = take n ts" ..
  show ?case
  proof (cases "trajectory_point rp flight t")
    case (Inl e)
    then have "map pt_time (sample_trajectory rp flight (t # ts)) = take 0 (t # ts)" by simp
    then show ?thesis ..
  next
    case (Inr p)
    then have "map pt_time (sample_trajectory rp flight (t # ts)) = take (Suc n) (t # ts)"
      using n trajectory_point_time [OF Inr] by simp
    then show ?thesis ..
  qed
qed

lemma np_arange_increasing:
  assumes "0 < step"
  shows "sorted_wrt (<) (np_arange stop step)"
  unfolding np_arange_def using assms
  by (simp add: sorted_wrt_map sorted_wrt_iff_nth_less)

lemma sorted_wrt_take:
  "sorted_wrt P xs \<Longrightarrow> sorted_wrt P (take n xs)"
  by (metis append_take_drop_id sorted_wrt_append)

lemma sample_trajectory_increasing:
  assumes "0 < step"
  shows "sorted_wrt (<) (map pt_time (sample_trajectory rp flight (np_arange stop step)))"
proof -
  obtain n where "map pt_time (sample_trajectory rp flight (np_arange stop step))
      = take n (np_arange stop step)"
    using sample_trajectory_prefix [of rp flight "np_arange stop step"] by blast
  then show ?thesis using np_arange_increasing [OF assms] by (simp add: sorted_wrt_take)
qed

lemma flight_events_liftoff:
  assumes "flight_events rp motor flight = Inr events"
  shows "events \<noteq> [] \<and>
         hd events = \<lparr>ev_name = ''liftoff'', ev_time = 0, ev_altitude = Some 0, ev_velocity = None\<rparr>"
proof -
  from assms obtain t0 v0 bt ta ap where tail:
    "(case flight_attribute rp flight ''impact_time'' of
        None \<Rightarrow> Inr [\<lparr>ev_name = ''liftoff'', ev_time = 0, ev_altitude = Some 0, ev_velocity = None\<rparr>,
                \<lparr>ev_name = ''rail_departure'', ev_time = t0, ev_altitude = None,
                 ev_velocity = Some v0\<rparr>,
                \<lparr>ev_name = ''burnout'', ev_time = bt, ev_altitude = None,
                 ev_velocity = None\<rparr>,
                \<lparr>ev_name = ''apogee'', ev_time = ta, ev_altitude = Some ap,
                 ev_velocity = None\<rparr>]
      | Some (Inl e) \<Rightarrow> Inl e
      | Some (Inr impact_time) \<Rightarrow>
          if impact_time \<noteq> 0 then
            bind_exn (getattr_or rp flight ''impact_velocity'' 0)
              (\<lambda>impact_velocity.
                 Inr ([\<lparr>ev_name = ''liftoff'', ev_time = 0, ev_altitude = Some 0, ev_velocity = None\<rparr>,
                \<lparr>ev_name = ''rail_departure'', ev_time = t0, ev_altitude = None,
                 ev_velocity = Some v0\<rparr>,
                \<lparr>ev_name = ''burnout'', ev_time = bt, ev_altitude = None,
                 ev_velocity = None\<rparr>,
                \<lparr>ev_name = ''apogee'', ev_time = ta, ev_altitude = Some ap,
                 ev_velocity = None\<rparr>] @
                   [\<lparr>ev_name = ''landing'', ev_time = impact_time, ev_altitude = None,
                     ev_velocity = Some impact_velocity\<rparr>]))
          else Inr [\<lparr>ev_name = ''liftoff'', ev_time = 0, ev_altitude = Some 0, ev_velocity = None\<rparr>,
                \<lparr>ev_name = ''rail_departure'', ev_time = t0, ev_altitude = None,
                 ev_velocity = Some v0\<rparr>,
                \<lparr>ev_name = ''burnout'', ev_time = bt, ev_altitude = None,
                 ev_velocity = None\<rparr>,
                \<lparr>ev_name = ''apogee'', ev_time = ta, ev_altitude = Some ap,
                 ev_velocity = None\<rparr>]) = Inr events"
    unfolding flight_events_def Let_def bind_exn_Inr_iff by blast
  show ?thesis
  proof (cases "flight_attribute rp flight ''impact_time''")
    case None
    with tail show ?thesis by auto
  next
    case (Some a)
    show ?thesis
    proof (cases a)
      case (Inl e)
      with Some tail show ?thesis by simp
    next
      case (Inr impact_time)
      show ?thesis
      proof (cases "impact_time = 0")
        case True
        with Some Inr tail show ?thesis by auto
      next
        case False
        with Some Inr tail show ?thesis by (auto simp: bind_exn_Inr_iff)
      qed
    qed
  qed
qed

lemma read_flight_Inr:
  assumes "read_flight rp request motor rocket flight = Inr r"
  shows "res_success r"
    and "\<exists>dt t_final. py_div 1.0 (req_output_sampling_rate request) = Inr dt \<and>
           res_trajectory r = sample_trajectory rp flight (np_arange t_final dt)"
    and "flight_events rp motor flight = Inr (res_events r)"
    and "length (res_landing_position r) = 2"
proof -
  obtain si sb where st: "stability_info rp motor rocket = (si, sb)"
    by (cases "stability_info rp motor rocket")
  note unf = assms [unfolded read_flight_def Let_def st prod.case bind_exn_Inr_iff]
  show "res_success r" using unf by (elim exE conjE) auto
  show "\<exists>dt t_final. py_div 1.0 (req_output_sampling_rate request) = Inr dt \<and>
           res_trajectory r = sample_trajectory rp flight (np_arange t_final dt)"
    using unf by (elim exE conjE) auto
  show "flight_events rp motor flight = Inr (res_events r)" using unf by (elim exE conjE) auto
  show "length (res_landing_position r) = 2" using unf by (elim exE conjE) auto
qed

lemma run_highfidelity_cases:
  "(\<exists>motor rocket flight. build_flight py_float rp request = Inr (motor, rocket, flight) \<and>
       read_flight rp request motor rocket flight = Inr (run_highfidelity py_float rp request)) \<or>
   (\<exists>e. run_highfidelity py_float rp request =
       \<lparr>res_success = False,
        res_message = ''Simulation failed: '' @ str_exn e,
        res_apogee = 0, res_apogee_time = 0, res_max_velocity = 0,
        res_max_velocity_time = 0, res_max_acceleration = 0, res_max_mach = 0,
        res_flight_time = 0, res_landing_velocity = 0,
        res_landing_position = [0, 0], res_out_of_rail_velocity = 0,
        res_out_of_rail_stability = 0,
        res_trajectory = [], res_events = [],
        res_stability_margin_initial = 0, res_stability_margin_burnout = 0,
        res_cp_position = 0, res_cg_position = 0\<rparr>)"
  unfolding run_highfidelity_def bind_exn_def
  by (auto split: sum.splits prod.splits)

lemma run_highfidelity_raised:
  assumes "bind_exn (build_flight py_float rp request)
             (\<lambda>(motor, rocket, flight). read_flight rp request motor rocket flight) = Inl e"
  shows "run_highfidelity py_float rp request =
       \<lparr>res_success = False,
        res_message = ''Simulation failed: '' @ str_exn e,
        res_apogee = 0, res_apogee_time = 0, res_max_velocity = 0,
        res_max_velocity_time = 0, res_max_acceleration = 0, res_max_mach = 0,
        res_flight_time = 0, res_landing_velocity = 0,
        res_landing_position = [0, 0], res_out_of_rail_velocity = 0,
        res_out_of_rail_stability = 0,
        res_trajectory = [], res_events = [],
        res_stability_margin_initial = 0, res_stability_margin_burnout = 0,
        res_cp_position = 0, res_cg_position = 0\<rparr>"
  unfolding run_highfidelity_def assms by simp


lemmas engine_defs = run_simulation_def run_highfidelity_def build_flight_def read_flight_def
  create_environment_def create_rocketpy_motor_def create_rocketpy_rocket_def
  trajectory_point_def flight_events_def stability_info_def getattr_def getattr_or_def
  call_def call_or_zero_def np_arange_def bind_exn_def py_div_def

lemma run_simulation_refused:
  "run_simulation float_on_samples (Some refusing_rocketpy) demo_request =
    Some (Inr
      \<lparr>res_success = False,
       res_message = ''Simulation failed: no environment'',
       res_apogee = 0, res_apogee_time = 0, res_max_velocity = 0,
       res_max_velocity_time = 0, res_max_acceleration = 0, res_max_mach = 0,
       res_flight_time = 0, res_landing_velocity = 0,
       res_landing_position = [0, 0], res_out_of_rail_velocity = 0,
       res_out_of_rail_stability = 0, res_trajectory = [], res_events = [],
       res_stability_margin_initial = 0, res_stability_margin_burnout = 0,
       res_cp_position = 0, res_cg_position = 0\<rparr>)"
  by (simp add: engine_defs request_defs refusing_rocketpy_def)

lemma run_simulation_toy:
  "run_simulation float_on_samples (Some toy_rocketpy) demo_request =
    Some (Inr
      \<lparr>res_success = True,
       res_message = ''Simulation completed successfully'',
       res_apogee = 9 / 4, res_apogee_time = 3 / 2,
       res_max_velocity = 3, res_max_velocity_time = 0,
       res_max_acceleration = 0, res_max_mach = 0, res_flight_time = 3,
       res_landing_velocity = 0, res_landing_position = [0, 0],
       res_out_of_rail_velocity = 3, res_out_of_rail_stability = 11 / 5,
       res_trajectory =
         [\<lparr>pt_time = 0, pt_x = 0, pt_y = 0, pt_z = 0, pt_vx = 0,
           pt_vy = 0, pt_vz = 3, pt_ax = 0, pt_ay = 0, pt_az = 0,
           pt_pitch = 0, pt_yaw = 0, pt_roll = 0, pt_mach = 0,
           pt_dynamic_pressure = 0, pt_angle_of_attack = 0\<rparr>,
          \<lparr>pt_time = 1, pt_x = 0, pt_y = 0, pt_z = 2, pt_vx = 0,
           pt_vy = 0, pt_vz = 1, pt_ax = 0, pt_ay = 0, pt_az = 0,
           pt_pitch = 0, pt_yaw = 0, pt_roll = 0, pt_mach = 0,
           pt_dynamic_pressure = 0, pt_angle_of_attack = 0\<rparr>,
          \<lparr>pt_time = 2, pt_x = 0, pt_y = 0, pt_z = 2, pt_vx = 0,
           pt_vy = 0, pt_vz = - 1, pt_ax = 0, pt_ay = 0, pt_az = 0,
           pt_pitch = 0, pt_yaw = 0, pt_roll = 0, pt_mach = 0,
           pt_dynamic_pressure = 0, pt_angle_of_attack = 0\<rparr>],
       res_events =
         [\<lparr>ev_name = ''liftoff'', ev_time = 0, ev_altitude = Some 0,
           ev_velocity = None\<rparr>,
          \<lparr>ev_name = ''rail_departure'', ev_time = 1 / 10,
           ev_altitude = None, ev_velocity = Some 3\<rparr>,
          \<lparr>ev_name = ''burnout'', ev_time = 1 / 2, ev_altitude = None,
           ev_velocity = None\<rparr>,
          \<lparr>ev_name = ''apogee'', ev_time = 3 / 2,
           ev_altitude = Some (9 / 4), ev_velocity = None\<rparr>,
          \<lparr>ev_name = ''landing'', ev_time = 3, ev_altitude = None,
           ev_velocity = Some 0\<rparr>],
       res_stability_margin_initial = 11 / 5,
       res_stability_margin_burnout = 11 / 5, res_cp_position = 0,
       res_cg_position = 3 / 10\<rparr>)"
  by (simp add: engine_defs request_defs toy_rocketpy_def upt_conv_Cons)

lemma run_simulation_toy_invalid:
  "run_simulation float_on_samples (Some toy_rocketpy) invalid_request =
    Some (Inr
      \<lparr>res_success = False,
       res_message =
         ''Simulation failed: could not convert string to float: '' @ [CHR 0x27] @ ''abc'' @ [CHR 0x27],
       res_apogee = 0, res_apogee_time = 0, res_max_velocity = 0,
       res_max_velocity_time = 0, res_max_acceleration = 0, res_max_mach = 0,
       res_flight_time = 0, res_landing_velocity = 0,
       res_landing_position = [0, 0], res_out_of_rail_velocity = 0,
       res_out_of_rail_stability = 0, res_trajectory = [], res_events = [],
       res_stability_margin_initial = 0, res_stability_margin_burnout = 0,
       res_cp_position = 0, res_cg_position = 0\<rparr>)"
  by (simp add: engine_defs request_defs toy_rocketpy_def float_on_samples_def)

lemma create_mock_result_invalid:
  "create_mock_result invalid_request = create_mock_result demo_request"
  by (simp add: create_mock_result_def request_defs Let_def py_div_def py_square_def
      cong: option.case_cong sum.case_cong prod.case_cong)

lemma fallback_ignores_configuration:
  "create_mock_result
     (request\<lparr>req_rocket := (req_rocket request)
        \<lparr>rocket_fins := fins, rocket_parachutes := chutes,
         rocket_motor := (rocket_motor (req_rocket request))
           \<lparr>motor_thrust_curve := curve, motor_nozzle_radius := nozzle\<rparr>\<rparr>\<rparr>)
   = create_mock_result request"
  by (simp add: create_mock_result_def Let_def
      cong: option.case_cong sum.case_cong prod.case_cong)

lemma create_mock_result_Inr:
  assumes "create_mock_result request = Some (Inr r)"
  shows "mock_loop
           (rocket_mass (req_rocket request)
              + motor_propellant_mass (rocket_motor (req_rocket request))
              + motor_dry_mass (rocket_motor (req_rocket request)))
           (motor_avg_thrust (rocket_motor (req_rocket request)))
           (motor_burn_time (rocket_motor (req_rocket request)))
           (motor_propellant_mass (rocket_motor (req_rocket request)))
           (1 / req_output_sampling_rate request) (res_apogee_time r) 0 [] =
         Some (Inr (res_flight_time r, res_trajectory r))"
    and "res_events r \<noteq> [] \<and>
         hd (res_events r) =
           \<lparr>ev_name = ''liftoff'', ev_time = 0, ev_altitude = Some 0, ev_velocity = None\<rparr>"
  using assms unfolding create_mock_result_def py_div_def py_square_def Let_def
  by (auto split: if_splits option.splits sum.splits)

text \<open>
  C8, as stated, fails: when the library raises, the result that \<^verbatim>\<open>run_simulation\<close>
  returns has an empty events list, so its first event is not the liftoff.
\<close>

theorem failed_run_has_no_events:
  "map_option (map_sum id res_events)
     (run_simulation float_on_samples (Some refusing_rocketpy) demo_request) = Some (Inr [])"
  by (simp add: run_simulation_refused)

text \<open>
  C8, amended. For every request with a positive output sampling rate, whenever
  \<^verbatim>\<open>run_simulation\<close> returns a result with success = true, on either path, the times
  of its trajectory samples are strictly increasing and the first element of its events
  list is the event named "liftoff" with time 0 and altitude 0.
\<close>

theorem successful_run_is_ordered:
  assumes "run_simulation py_float rocketpy request = Some (Inr r)"
    and "res_success r"
    and "0 < req_output_sampling_rate request"
  shows "sorted_wrt (<) (map pt_time (res_trajectory r)) \<and>
         res_events r \<noteq> [] \<and>
         hd (res_events r) =
           \<lparr>ev_name = ''liftoff'', ev_time = 0, ev_altitude = Some 0, ev_velocity = None\<rparr>"
proof (cases rocketpy)
  case None
  then have mock: "create_mock_result request = Some (Inr r)"
    using assms(1) by (simp add: run_simulation_def)
  note create_mock_result_Inr(1) [OF mock]
  moreover have "0 < 1 / req_output_sampling_rate request" using assms(3) by simp
  ultimately have "sorted_wrt (<) (map pt_time (res_trajectory r))"
    by (rule mock_loop_sorted)
  then show ?thesis using create_mock_result_Inr(2) [OF mock] by simp
next
  case (Some rp)
  then have r: "r = run_highfidelity py_float rp request"
    using assms(1) by (simp add: run_simulation_def)
  from run_highfidelity_cases [of py_float rp request] assms(2) r
  obtain motor rocket flight where rd: "read_flight rp request motor rocket flight = Inr r"
    by auto
  from read_flight_Inr(2) [OF rd] obtain dt t_final where
    dt: "py_div 1.0 (req_output_sampling_rate request) = Inr dt"
    and tr: "res_trajectory r = sample_trajectory rp flight (np_arange t_final dt)"
    by blast
  have "0 < dt" using dt assms(3) by (auto simp: py_div_def split: if_splits)
  then have "sorted_wrt (<) (map pt_time (res_trajectory r))"
    unfolding tr by (rule sample_trajectory_increasing)
  then show ?thesis
    using flight_events_liftoff [OF read_flight_Inr(3) [OF rd]] by simp
qed

theorem successful_run_is_ordered_witness:
  "\<exists>r. run_simulation float_on_samples (Some toy_rocketpy) demo_request = Some (Inr r) \<and>
       res_success r \<and> 0 < req_output_sampling_rate demo_request \<and>
       map pt_time (res_trajectory r) = [0, 1, 2] \<and>
       sorted_wrt (<) (map pt_time (res_trajectory r)) \<and>
       ev_name (hd (res_events r)) = ''liftoff''"
proof -
  have rate: "0 < req_output_sampling_rate demo_request" by (simp add: request_defs)
  have "res_success
     (\<lparr>res_success = True,
       res_message = ''Simulation completed successfully'',
       res_apogee = 9 / 4, res_apogee_time = 3 / 2,
       res_max_velocity = 3, res_max_velocity_time = 0,
       res_max_acceleration = 0, res_max_mach = 0, res_flight_time = 3,
       res_landing_velocity = 0, res_landing_position = [0, 0],
       res_out_of_rail_velocity = 3, res_out_of_rail_stability = 11 / 5,
       res_trajectory =
         [\<lparr>pt_time = 0, pt_x = 0, pt_y = 0, pt_z = 0, pt_vx = 0,
           pt_vy = 0, pt_vz = 3, pt_ax = 0, pt_ay = 0, pt_az = 0,
           pt_pitch = 0, pt_yaw = 0, pt_roll = 0, pt_mach = 0,
           pt_dynamic_pressure = 0, pt_angle_of_attack = 0\<rparr>,
          \<lparr>pt_time = 1, pt_x = 0, pt_y = 0, pt_z = 2, pt_vx = 0,
           pt_vy = 0, pt_vz = 1, pt_ax = 0, pt_ay = 0, pt_az = 0,
           pt_pitch = 0, pt_yaw = 0, pt_roll = 0, pt_mach = 0,
           pt_dynamic_pressure = 0, pt_angle_of_attack = 0\<rparr>,
          \<lparr>pt_time = 2, pt_x = 0, pt_y = 0, pt_z = 2, pt_vx = 0,
           pt_vy = 0, pt_vz = - 1, pt_ax = 0, pt_ay = 0, pt_az = 0,
           pt_pitch = 0, pt_yaw = 0, pt_roll = 0, pt_mach = 0,
           pt_dynamic_pressure = 0, pt_angle_of_attack = 0\<rparr>],
       res_events =
         [\<lparr>ev_name = ''liftoff'', ev_time = 0, ev_altitude = Some 0,
           ev_velocity = None\<rparr>,
          \<lparr>ev_name = ''rail_departure'', ev_time = 1 / 10,
           ev_altitude = None, ev_velocity = Some 3\<rparr>,
          \<lparr>ev_name = ''burnout'', ev_time = 1 / 2, ev_altitude = None,
           ev_velocity = None\<rparr>,
          \<lparr>ev_name = ''apogee'', ev_time = 3 / 2,
           ev_altitude = Some (9 / 4), ev_velocity = None\<rparr>,
          \<lparr>ev_name = ''landing'', ev_time = 3, ev_altitude = None,
           ev_velocity = Some 0\<rparr>],
       res_stability_margin_initial = 11 / 5,
       res_stability_margin_burnout = 11 / 5, res_cp_position = 0,
       res_cg_position = 3 / 10\<rparr>)" by simp
  from successful_run_is_ordered [OF run_simulation_toy this rate] rate
  show ?thesis by (simp add: run_simulation_toy)
qed

lemma build_flight_Inl_iff:
  "build_flight py_float rp request = Inl e \<longleftrightarrow>
    create_environment rp (req_environment request) = Inl e \<or>
    (\<exists>env. create_environment rp (req_environment request) = Inr env \<and>
       (create_rocketpy_motor rp (rocket_motor (req_rocket request)) = Inl e \<or>
        (\<exists>motor. create_rocketpy_motor rp (rocket_motor (req_rocket request)) = Inr motor \<and>
           (create_rocketpy_rocket py_float rp (req_rocket request) motor = Inl e \<or>
            (\<exists>rocket. create_rocketpy_rocket py_float rp (req_rocket request) motor = Inr rocket \<and>
               Flight rp rocket env
                 \<lparr>fl_rail_length = flight_rail_length (req_flight request),
                  fl_inclination = flight_inclination (req_flight request),
                  fl_heading = flight_heading (req_flight request),
                  fl_max_time = flight_max_time (req_flight request),
                  fl_max_time_step = flight_max_time_step (req_flight request),
                  fl_terminate_on_apogee = flight_terminate_on_apogee (req_flight request)\<rparr>
                 = Inl e)))))"
  unfolding build_flight_def bind_exn_def
  by (auto split: sum.splits)

text \<open>
  C1. With the library present, when the construction of the environment, of the motor
  or of the rocket, or the flight constructor (which integrates the flight), raises an
  exception \<open>e\<close>, \<^verbatim>\<open>run_simulation\<close> returns, and does not raise: the result has
  success = false, the message "Simulation failed: " followed by the text of \<open>e\<close>,
  every numeric field zero, landing position [0, 0] and empty trajectory and events.
\<close>

theorem engine_exception_gives_failed_result:
  assumes "create_environment rp (req_environment request) = Inl e \<or>
    (\<exists>env. create_environment rp (req_environment request) = Inr env \<and>
       (create_rocketpy_motor rp (rocket_motor (req_rocket request)) = Inl e \<or>
        (\<exists>motor. create_rocketpy_motor rp (rocket_motor (req_rocket request)) = Inr motor \<and>
           (create_rocketpy_rocket py_float rp (req_rocket request) motor = Inl e \<or>
            (\<exists>rocket. create_rocketpy_rocket py_float rp (req_rocket request) motor = Inr rocket \<and>
               Flight rp rocket env
                 \<lparr>fl_rail_length = flight_rail_length (req_flight request),
                  fl_inclination = flight_inclination (req_flight request),
                  fl_heading = flight_heading (req_flight request),
                  fl_max_time = flight_max_time (req_flight request),
                  fl_max_time_step = flight_max_time_step (req_flight request),
                  fl_terminate_on_apogee = flight_terminate_on_apogee (req_flight request)\<rparr>
                 = Inl e)))))"
  shows "run_simulation py_float (Some rp) request =
    Some (Inr
      \<lparr>res_success = False,
       res_message = ''Simulation failed: '' @ str_exn e,
       res_apogee = 0, res_apogee_time = 0, res_max_velocity = 0,
       res_max_velocity_time = 0, res_max_acceleration = 0, res_max_mach = 0,
       res_flight_time = 0, res_landing_velocity = 0,
       res_landing_position = [0, 0], res_out_of_rail_velocity = 0,
       res_out_of_rail_stability = 0,
       res_trajectory = [], res_events = [],
       res_stability_margin_initial = 0, res_stability_margin_burnout = 0,
       res_cp_position = 0, res_cg_position = 0\<rparr>)"
proof -
  have "build_flight py_float rp request = Inl e"
    using assms by (simp only: build_flight_Inl_iff)
  then have "bind_exn (build_flight py_float rp request)
     (\<lambda>(motor, rocket, flight). read_flight rp request motor rocket flight) = Inl e"
    by (rule bind_exn_Inl)
  from run_highfidelity_raised [OF this] show ?thesis
    by (simp add: run_simulation_def)
qed

lemma create_environment_refused:
  "create_environment refusing_rocketpy (req_environment demo_request)
     = Inl (EngineError ''no environment'')"
  by (simp add: create_environment_def refusing_rocketpy_def bind_exn_def)

theorem engine_exception_gives_failed_result_witness:
  "create_environment refusing_rocketpy (req_environment demo_request)
     = Inl (EngineError ''no environment'') \<and>
   run_simulation float_on_samples (Some refusing_rocketpy) demo_request =
    Some (Inr
      \<lparr>res_success = False,
       res_message = ''Simulation failed: no environment'',
       res_apogee = 0, res_apogee_time = 0, res_max_velocity = 0,
       res_max_velocity_time = 0, res_max_acceleration = 0, res_max_mach = 0,
       res_flight_time = 0, res_landing_velocity = 0,
       res_landing_position = [0, 0], res_out_of_rail_velocity = 0,
       res_out_of_rail_stability = 0,
       res_trajectory = [], res_events = [],
       res_stability_margin_initial = 0, res_stability_margin_burnout = 0,
       res_cp_position = 0, res_cg_position = 0\<rparr>)"
  using engine_exception_gives_failed_result
    [of refusing_rocketpy demo_request "EngineError ''no environment''" float_on_samples]
    create_environment_refused
  by simp

lemma bind_exn_raises:
  assumes "\<And>v. \<exists>e. f v = Inl e"
  shows "\<exists>e. bind_exn m f = Inl e"
  using assms by (cases m) (simp_all add: bind_exn_def)

lemma bind_exn_raises_first:
  assumes "\<exists>e. m = Inl e"
  shows "\<exists>e. bind_exn m f = Inl e"
  using assms by (auto simp: bind_exn_def)

lemma add_parachutes_unparseable:
  assumes "chute \<in> set chutes"
    and "chute_trigger chute \<noteq> ''apogee''"
    and "py_float (chute_trigger chute) = None"
  shows "\<exists>e. add_parachutes py_float rp rocket chutes = Inl e"
  using assms(1)
proof (induction chutes arbitrary: rocket)
  case Nil
  then show ?case by simp
next
  case (Cons c chutes)
  show ?case
  proof (cases "c = chute")
    case True
    then show ?thesis using assms(2,3) by (simp add: bind_exn_def)
  next
    case False
    then have "chute \<in> set chutes" using Cons.prems by simp
    then have later: "\<exists>e. add_parachutes py_float rp rocket' chutes = Inl e" for rocket'
      by (rule Cons.IH)
    show ?thesis
      unfolding add_parachutes.simps
      by (rule bind_exn_raises, rule bind_exn_raises, rule later)
  qed
qed

lemma create_rocketpy_rocket_unparseable:
  assumes "rocket_parachutes config = Some chutes"
    and "chute \<in> set chutes"
    and "chute_trigger chute \<noteq> ''apogee''"
    and "py_float (chute_trigger chute) = None"
  shows "\<exists>e. create_rocketpy_rocket py_float rp config motor = Inl e"
proof -
  have ne: "chutes \<noteq> []" using assms(2) by auto
  have last_step: "\<exists>e. (case rocket_parachutes config of
             Some chutes \<Rightarrow>
               if chutes \<noteq> [] then add_parachutes py_float rp rocket chutes else Inr rocket
           | None \<Rightarrow> Inr rocket) = Inl e" for rocket
    using add_parachutes_unparseable [where py_float = py_float and rp = rp and rocket = rocket,
        OF assms(2-4)] ne
    by (simp add: assms(1))
  show ?thesis
    unfolding create_rocketpy_rocket_def Let_def
    by (rule bind_exn_raises, rule bind_exn_raises, rule bind_exn_raises, rule bind_exn_raises,
        rule last_step)
qed

lemma build_flight_unparseable:
  assumes "rocket_parachutes (req_rocket request) = Some chutes"
    and "chute \<in> set chutes"
    and "chute_trigger chute \<noteq> ''apogee''"
    and "py_float (chute_trigger chute) = None"
  shows "\<exists>e. build_flight py_float rp request = Inl e"
  unfolding build_flight_def
  by (rule bind_exn_raises, rule bind_exn_raises, rule bind_exn_raises_first,
      rule create_rocketpy_rocket_unparseable [where py_float = py_float, OF assms])

text \<open>
  C3, as stated, fails: the request models declare no validator and no
  \<^verbatim>\<open>InvalidConfiguration\<close> error exists. A request with a thrust curve whose times
  decrease, a nozzle radius of zero, a fin count of zero and the parachute trigger "abc"
  is accepted; without the library it is simulated and the result has success = true;
  with the library the trigger is converted only after environment, motor and rocket body
  are built, and the failure comes back as a returned result, not as an error.
\<close>

theorem invalid_configuration_is_simulated:
  "fin_n (the (rocket_fins (req_rocket invalid_request))) < 1 \<and>
   motor_nozzle_radius (rocket_motor (req_rocket invalid_request)) \<le> 0 \<and>
   motor_thrust_curve (rocket_motor (req_rocket invalid_request)) = Some [[1, 5], [0, 3]] \<and>
   map chute_trigger (the (rocket_parachutes (req_rocket invalid_request))) = [''abc''] \<and>
   float_on_samples ''abc'' = None \<and>
   map_option (map_sum id res_success)
     (run_simulation float_on_samples (None :: (unit, unit, unit, unit) rocketpy option)
        invalid_request) = Some (Inr True) \<and>
   map_option (map_sum id res_message)
     (run_simulation float_on_samples (Some toy_rocketpy) invalid_request) =
     Some (Inr (''Simulation failed: could not convert string to float: '' @
                [CHR 0x27] @ ''abc'' @ [CHR 0x27]))"
proof -
  have config: "fin_n (the (rocket_fins (req_rocket invalid_request))) < 1 \<and>
      motor_nozzle_radius (rocket_motor (req_rocket invalid_request)) \<le> 0 \<and>
      motor_thrust_curve (rocket_motor (req_rocket invalid_request)) = Some [[1, 5], [0, 3]] \<and>
      map chute_trigger (the (rocket_parachutes (req_rocket invalid_request))) = [''abc''] \<and>
      float_on_samples ''abc'' = None"
    by (simp add: request_defs float_on_samples_def)
  have fallback: "map_option (map_sum id res_success)
     (run_simulation float_on_samples (None :: (unit, unit, unit, unit) rocketpy option)
        invalid_request) = Some (Inr True)"
    by (simp add: run_simulation_def create_mock_result_invalid create_mock_result_demo)
  have engine: "map_option (map_sum id res_message)
     (run_simulation float_on_samples (Some toy_rocketpy) invalid_request) =
     Some (Inr (''Simulation failed: could not convert string to float: '' @
                [CHR 0x27] @ ''abc'' @ [CHR 0x27]))"
    by (simp add: run_simulation_toy_invalid)
  from config fallback engine show ?thesis by (intro conjI) simp_all
qed

text \<open>
  C3, amended. For every request one of whose parachutes has a trigger string that is
  neither "apogee" nor parseable as a number: with the library present
  \<^verbatim>\<open>run_simulation\<close> returns (it does not raise) the failed result, with success = false,
  a message "Simulation failed: ..." and empty trajectory and events; without the
  library the result of \<^verbatim>\<open>run_simulation\<close> does not depend on fins, parachutes, thrust
  curve or nozzle radius at all, so no value of them is rejected.
\<close>

theorem unparseable_trigger_gives_failed_result:
  assumes "rocket_parachutes (req_rocket request) = Some chutes"
    and "chute \<in> set chutes"
    and "chute_trigger chute \<noteq> ''apogee''"
    and "py_float (chute_trigger chute) = None"
  shows "(\<exists>e. run_simulation py_float (Some rp) request =
            Some (Inr
              \<lparr>res_success = False,
               res_message = ''Simulation failed: '' @ str_exn e,
               res_apogee = 0, res_apogee_time = 0, res_max_velocity = 0,
               res_max_velocity_time = 0, res_max_acceleration = 0, res_max_mach = 0,
               res_flight_time = 0, res_landing_velocity = 0,
               res_landing_position = [0, 0], res_out_of_rail_velocity = 0,
               res_out_of_rail_stability = 0,
               res_trajectory = [], res_events = [],
               res_stability_margin_initial = 0, res_stability_margin_burnout = 0,
               res_cp_position = 0, res_cg_position = 0\<rparr>)) \<and>
         (\<forall>fins chutes' curve nozzle.
            run_simulation py_float (None :: ('e, 'm, 'r, 'f) rocketpy option)
              (request\<lparr>req_rocket := (req_rocket request)
                 \<lparr>rocket_fins := fins, rocket_parachutes := chutes',
                  rocket_motor := (rocket_motor (req_rocket request))
                    \<lparr>motor_thrust_curve := curve, motor_nozzle_radius := nozzle\<rparr>\<rparr>\<rparr>)
            = run_simulation py_float (None :: ('e, 'm, 'r, 'f) rocketpy option) request)"
proof
  obtain e where "build_flight py_float rp request = Inl e"
    using build_flight_unparseable [where py_float = py_float and rp = rp, OF assms] by blast
  then have "bind_exn (build_flight py_float rp request)
     (\<lambda>(motor, rocket, flight). read_flight rp request motor rocket flight) = Inl e"
    by (rule bind_exn_Inl)
  from run_highfidelity_raised [OF this]
  show "\<exists>e. run_simulation py_float (Some rp) request =
            Some (Inr
              \<lparr>res_success = False,
               res_message = ''Simulation failed: '' @ str_exn e,
               res_apogee = 0, res_apogee_time = 0, res_max_velocity = 0,
               res_max_velocity_time = 0, res_max_acceleration = 0, res_max_mach = 0,
               res_flight_time = 0, res_landing_velocity = 0,
               res_landing_position = [0, 0], res_out_of_rail_velocity = 0,
               res_out_of_rail_stability = 0,
               res_trajectory = [], res_events = [],
               res_stability_margin_initial = 0, res_stability_margin_burnout = 0,
               res_cp_position = 0, res_cg_position = 0\<rparr>)"
    by (auto simp: run_simulation_def)
next
  show "\<forall>fins chutes' curve nozzle.
            run_simulation py_float (None :: ('e, 'm, 'r, 'f) rocketpy option)
              (request\<lparr>req_rocket := (req_rocket request)
                 \<lparr>rocket_fins := fins, rocket_parachutes := chutes',
                  rocket_motor := (rocket_motor (req_rocket request))
                    \<lparr>motor_thrust_curve := curve, motor_nozzle_radius := nozzle\<rparr>\<rparr>\<rparr>)
            = run_simulation py_float (None :: ('e, 'm, 'r, 'f) rocketpy option) request"
    by (simp add: run_simulation_def fallback_ignores_configuration)
qed

lemma invalid_request_trigger:
  "rocket_parachutes (req_rocket invalid_request)
     = Some [default_ParachuteConfig\<lparr>chute_trigger := ''abc''\<rparr>]"
  by (simp add: request_defs)

theorem unparseable_trigger_gives_failed_result_witness:
  "rocket_parachutes (req_rocket invalid_request)
     = Some [default_ParachuteConfig\<lparr>chute_trigger := ''abc''\<rparr>] \<and>
   float_on_samples ''abc'' = None \<and>
   map_option (map_sum id res_success)
     (run_simulation float_on_samples (Some toy_rocketpy) invalid_request) = Some (Inr False)"
proof -
  have "default_ParachuteConfig\<lparr>chute_trigger := ''abc''\<rparr>
      \<in> set [default_ParachuteConfig\<lparr>chute_trigger := ''abc''\<rparr>]"
    and "chute_trigger (default_ParachuteConfig\<lparr>chute_trigger := ''abc''\<rparr>) \<noteq> ''apogee''"
    and "float_on_samples (chute_trigger (default_ParachuteConfig\<lparr>chute_trigger := ''abc''\<rparr>)) = None"
    by (simp_all add: float_on_samples_def)
  from unparseable_trigger_gives_failed_result
    [where py_float = float_on_samples and rp = toy_rocketpy, OF invalid_request_trigger this]
  show ?thesis
    by (auto simp: invalid_request_trigger float_on_samples_def)
qed

subsection \<open>The synthesized thrust curve\<close>

text \<open>
  Without a configured curve and with a positive burn time, the six points start and end
  at zero thrust, and their times increase strictly exactly when the burn time is above
  0.2 seconds: the second point stands at the fixed time 0.02, the third at a tenth of
  the burn time.
\<close>

lemma synthesized_thrust_curve_increasing_iff:
  assumes "motor_thrust_curve config = None \<or> motor_thrust_curve config = Some []"
    and "0 < motor_burn_time config"
  shows "sorted_wrt (<) (map hd (thrust_source config)) \<longleftrightarrow> 0.2 < motor_burn_time config"
    and "hd (tl (hd (thrust_source config))) = 0"
    and "hd (tl (last (thrust_source config))) = 0"
  using assms by (auto simp: thrust_source_def)

text \<open>
  C4 fails on the code: for a motor with burn time 0.1, average thrust 50 and no thrust
  curve, the synthesized curve starts and ends at zero thrust but its time points are
  0, 0.02, 0.01, 0.05, 0.09, 0.1, which are not increasing.
\<close>

theorem synthesized_thrust_curve_short_burn:
  "motor_thrust_curve short_burn_motor = None \<and>
   0 < motor_burn_time short_burn_motor \<and> 0 \<le> motor_avg_thrust short_burn_motor \<and>
   thrust_source short_burn_motor =
     [[0, 0], [0.02, 75], [0.01, 60], [0.05, 50], [0.09, 30], [0.1, 0]] \<and>
   \<not> sorted_wrt (<) (map hd (thrust_source short_burn_motor))"
  by (simp add: thrust_source_def short_burn_motor_def default_MotorConfig_def)

subsection \<open>The Monte Carlo endpoint\<close>

lemma mc_loop_thrust_std:
  "mc_loop py_float rp normal (request\<lparr>mcreq_thrust_std := a\<rparr>) i k results landing_positions
    = mc_loop py_float rp normal request i k results landing_positions"
  by (induction k arbitrary: i results landing_positions)
     (auto split: sum.splits option.splits)

text \<open>
  C10. The field \<open>thrust_std\<close> of a Monte Carlo request has no effect: two requests that
  differ in it only give, with the same random draws, the same outcome, with the library
  or without it; and the perturbed copy of the base request has the motor of the base
  request, so the thrust is never perturbed.
\<close>

theorem thrust_std_has_no_effect:
  "monte_carlo py_float rocketpy normal (request\<lparr>mcreq_thrust_std := a\<rparr>)
     = monte_carlo py_float rocketpy normal (request\<lparr>mcreq_thrust_std := b\<rparr>) \<and>
   rocket_motor (req_rocket (perturbed_request base d_wind_speed d_wind_direction d_mass))
     = rocket_motor (req_rocket base)"
  by (cases rocketpy)
    (simp_all add: monte_carlo_def mc_loop_thrust_std perturbed_request_def cong: sum.case_cong)

theorem thrust_std_has_no_effect_witness:
  "monte_carlo float_on_samples (Some refusing_rocketpy)
      (\<lambda>n loc scale. Inr (flat_normal n loc scale)) ((demo_montecarlo 2)\<lparr>mcreq_thrust_std := 0.5\<rparr>)
   = monte_carlo float_on_samples (Some refusing_rocketpy)
      (\<lambda>n loc scale. Inr (flat_normal n loc scale)) ((demo_montecarlo 2)\<lparr>mcreq_thrust_std := 0\<rparr>)"
  using thrust_std_has_no_effect
    [where py_float = float_on_samples and rocketpy = "Some refusing_rocketpy"
       and normal = "\<lambda>n loc scale. Inr (flat_normal n loc scale)"
       and request = "demo_montecarlo 2" and a = "0.5" and b = 0]
  by simp













end
